theory Spec2Isabelle
  imports Main "HOL-Library.Sublist" "HOL-Library.Log_Nat"
begin

section \<open>JavaScript values as the program sees them\<close>

text \<open>
  The program (\<^verbatim>\<open>Assignment3.JS\<close>) is an Express server: every route builds a
  \<^verbatim>\<open>filterFunction\<close> and hands it to \<^verbatim>\<open>handleApiRequest\<close>, which reads a JSON file,
  parses it, applies the filter and answers 200, 404 or 500.

  Strings are lists of code units; the model covers the code units U+0000 to U+00FF
  (one \<^typ>\<open>char\<close> each).  A number is a double: not-a-number, an infinity, or a finite
  value given by the rational it denotes.  The two zeros are one value here, since the
  program only compares numbers, tests them for truth and prints them, which never
  tells \<^verbatim>\<open>-0\<close> from \<^verbatim>\<open>0\<close>.
\<close>

datatype jsnum = NaN | PInf | NInf | Fin rat

datatype jsval =
    Undefined
  | Null
  | Bool bool
  | Num jsnum
  | Str string
  | Arr "jsval list"
  | Obj "(string \<times> jsval) list"

text \<open>What a thrown exception carries: its kind and its message.\<close>

datatype error = IOError string | SyntaxError string | TypeError string

subsection \<open>Strings: \<^verbatim>\<open>toLowerCase\<close>, \<^verbatim>\<open>trim\<close>, \<^verbatim>\<open>includes\<close>\<close>

definition code_unit :: "char \<Rightarrow> nat" where
  "code_unit c = of_char c"

text \<open>
  In the range U+0000 to U+00FF the letters with a lower-case mapping are A to Z and
  U+00C0 to U+00DE without the multiplication sign U+00D7; each maps 32 places up.
\<close>

definition is_upper :: "char \<Rightarrow> bool" where
  "is_upper c = (let n = code_unit c in
     (65 \<le> n \<and> n \<le> 90) \<or> (192 \<le> n \<and> n \<le> 222 \<and> n \<noteq> 215))"

definition lower_char :: "char \<Rightarrow> char" where
  "lower_char c = (if is_upper c then char_of (code_unit c + 32) else c)"

definition toLowerCase :: "string \<Rightarrow> string" where
  "toLowerCase s = map lower_char s"

text \<open>White space and line terminators below U+0100: TAB, LF, VT, FF, CR, SP, NBSP.\<close>

definition is_space :: "char \<Rightarrow> bool" where
  "is_space c = (code_unit c \<in> {9, 10, 11, 12, 13, 32, 160})"

definition trim_start :: "string \<Rightarrow> string" where
  "trim_start s = dropWhile is_space s"

definition trim :: "string \<Rightarrow> string" where
  "trim s = rev (dropWhile is_space (rev (dropWhile is_space s)))"

text \<open>\<^verbatim>\<open>s.includes(t)\<close>: \<open>t\<close> occurs in \<open>s\<close> at some position.\<close>

fun includes_str :: "string \<Rightarrow> string \<Rightarrow> bool" where
  "includes_str [] t = (t = [])"
| "includes_str (c # s) t = (prefix t (c # s) \<or> includes_str s t)"

subsection \<open>Numbers: rounding to a double\<close>

text \<open>
  \<open>ilog2 a\<close> is the binary exponent of a positive rational: the \<open>e\<close> with
  \<open>2^e \<le> a < 2^(e+1)\<close>.
\<close>

definition ilog2 :: "rat \<Rightarrow> int" where
  "ilog2 a = (if 1 \<le> a then bitlen \<lfloor>a\<rfloor> - 1 else - bitlen (\<lceil>1 / a\<rceil> - 1))"

definition scale2 :: "rat \<Rightarrow> int \<Rightarrow> rat" where
  "scale2 a s = (if 0 \<le> s then a * 2 ^ nat s else a / 2 ^ nat (- s))"

definition round_half_even :: "rat \<Rightarrow> int" where
  "round_half_even x = (let f = \<lfloor>x\<rfloor>; d = x - of_int f in
     if d < 1 / 2 then f else if 1 / 2 < d then f + 1 else if even f then f else f + 1)"

text \<open>
  The double nearest to a rational (ties to even): 53 significant bits, least exponent
  \<open>-1074\<close>, overflow to an infinity from \<open>2^1024\<close> on.  \<open>round_binary64\<close> rounds a
  positive magnitude to 53 bits.
\<close>

definition round_binary64 :: "rat \<Rightarrow> rat" where
  "round_binary64 a =
     (let s = max (ilog2 a - 52) (- 1074)
      in scale2 (of_int (round_half_even (scale2 a (- s)))) s)"

definition to_double :: "rat \<Rightarrow> jsnum" where
  "to_double q = (if q = 0 then Fin 0 else
     let r = round_binary64 \<bar>q\<bar>
     in if 2 ^ 1024 \<le> r then (if q < 0 then NInf else PInf)
        else Fin (if q < 0 then - r else r))"

subsection \<open>Numbers: \<^verbatim>\<open>parseInt(x, 10)\<close> and \<^verbatim>\<open>Number(x)\<close>\<close>

definition is_digit :: "char \<Rightarrow> bool" where
  "is_digit c = (48 \<le> code_unit c \<and> code_unit c \<le> 57)"

definition digit_val :: "char \<Rightarrow> nat" where
  "digit_val c = (let n = code_unit c in
     if 48 \<le> n \<and> n \<le> 57 then n - 48
     else if 97 \<le> n \<and> n \<le> 102 then n - 87
     else if 65 \<le> n \<and> n \<le> 70 then n - 55
     else 0)"

definition digits_val :: "nat \<Rightarrow> string \<Rightarrow> nat" where
  "digits_val b ds = foldl (\<lambda>a c. b * a + digit_val c) 0 ds"

definition is_hex_digit :: "char \<Rightarrow> bool" where
  "is_hex_digit c = (let n = code_unit c in
     (48 \<le> n \<and> n \<le> 57) \<or> (97 \<le> n \<and> n \<le> 102) \<or> (65 \<le> n \<and> n \<le> 70))"

definition is_oct_digit :: "char \<Rightarrow> bool" where
  "is_oct_digit c = (48 \<le> code_unit c \<and> code_unit c \<le> 55)"

definition is_bin_digit :: "char \<Rightarrow> bool" where
  "is_bin_digit c = (48 \<le> code_unit c \<and> code_unit c \<le> 49)"

text \<open>An optional sign in front: whether it is a minus, and the rest.\<close>

definition strip_sign :: "string \<Rightarrow> bool \<times> string" where
  "strip_sign u = (case u of
       [] \<Rightarrow> (False, [])
     | c # r \<Rightarrow> if c = CHR ''-'' then (True, r)
                else if c = CHR ''+'' then (False, r)
                else (False, u))"

text \<open>
  \<^verbatim>\<open>parseInt(s, 10)\<close> on a string: skip leading white space, read an optional sign, take
  the longest run of decimal digits; no digit gives \<open>NaN\<close>, otherwise the double of
  the signed value.  The value is that of all the digits (an engine may also read the
  digits after the twentieth as zeros).  With the radix 10 given, a prefix \<^verbatim>\<open>0x\<close> is not
  hexadecimal: the digits end at the \<^verbatim>\<open>x\<close>.
\<close>

definition parseInt_string :: "string \<Rightarrow> jsnum" where
  "parseInt_string s =
     (let (neg, S) = strip_sign (trim_start s);
          Z = takeWhile is_digit S
      in if Z = [] then NaN
         else to_double (if neg then - of_nat (digits_val 10 Z) else of_nat (digits_val 10 Z)))"

text \<open>
  \<^verbatim>\<open>Number(s)\<close> on a string: trim white space on both sides; the empty string is 0;
  then a hexadecimal, octal or binary literal without sign, or an optional sign before
  \<^verbatim>\<open>Infinity\<close> or a decimal literal (digits, optional fraction, optional exponent);
  anything else is \<open>NaN\<close>.
\<close>

definition nondecimal_literal :: "string \<Rightarrow> nat option" where
  "nondecimal_literal t = (case t of
       z # x # ds \<Rightarrow>
         if z = CHR ''0'' \<and> ds \<noteq> [] then
           (if (x = CHR ''x'' \<or> x = CHR ''X'') \<and> list_all is_hex_digit ds
              then Some (digits_val 16 ds)
            else if (x = CHR ''o'' \<or> x = CHR ''O'') \<and> list_all is_oct_digit ds
              then Some (digits_val 8 ds)
            else if (x = CHR ''b'' \<or> x = CHR ''B'') \<and> list_all is_bin_digit ds
              then Some (digits_val 2 ds)
            else None)
         else None
     | _ \<Rightarrow> None)"

definition exponent_part :: "string \<Rightarrow> int option" where
  "exponent_part r = (case r of
       [] \<Rightarrow> Some 0
     | c # r' \<Rightarrow>
         if c = CHR ''e'' \<or> c = CHR ''E'' then
           (let (neg, ds) = strip_sign r' in
            if ds \<noteq> [] \<and> list_all is_digit ds
            then Some (if neg then - int (digits_val 10 ds) else int (digits_val 10 ds))
            else None)
         else None)"

definition scale10 :: "rat \<Rightarrow> int \<Rightarrow> rat" where
  "scale10 a s = (if 0 \<le> s then a * 10 ^ nat s else a / 10 ^ nat (- s))"

definition unsigned_decimal :: "string \<Rightarrow> rat option" where
  "unsigned_decimal u =
     (let ip = takeWhile is_digit u;
          r1 = dropWhile is_digit u;
          dot = (r1 \<noteq> [] \<and> hd r1 = CHR ''.'');
          fp = (if dot then takeWhile is_digit (tl r1) else []);
          r2 = (if dot then dropWhile is_digit (tl r1) else r1)
      in if ip = [] \<and> fp = [] then None
         else case exponent_part r2 of
                None \<Rightarrow> None
              | Some e \<Rightarrow> Some (scale10 (of_nat (digits_val 10 (ip @ fp))) (e - int (length fp))))"

definition Number_string :: "string \<Rightarrow> jsnum" where
  "Number_string s =
     (let t = trim s in
      if t = [] then Fin 0
      else case nondecimal_literal t of
             Some n \<Rightarrow> to_double (of_nat n)
           | None \<Rightarrow>
               (let (neg, u) = strip_sign t in
                if u = ''Infinity'' then (if neg then NInf else PInf)
                else case unsigned_decimal u of
                       None \<Rightarrow> NaN
                     | Some q \<Rightarrow> to_double (if neg then - q else q)))"

text \<open>
  A path parameter is a string, or \<^verbatim>\<open>undefined\<close> (\<open>None\<close>) when the route has none of
  that name.  \<^verbatim>\<open>Number(undefined)\<close> is \<open>NaN\<close>.
\<close>

definition Number :: "string option \<Rightarrow> jsnum" where
  "Number p = (case p of None \<Rightarrow> NaN | Some s \<Rightarrow> Number_string s)"

definition js_of_param :: "string option \<Rightarrow> jsval" where
  "js_of_param p = (case p of None \<Rightarrow> Undefined | Some s \<Rightarrow> Str s)"

subsection \<open>Conversion to a string, and \<^verbatim>\<open>parseInt\<close> on any value\<close>

text \<open>
  \<^verbatim>\<open>parseInt(x, 10)\<close> converts \<open>x\<close> to a string first.  A number is printed by the
  engine (\<^verbatim>\<open>Number::toString\<close>, the shortest digits that read back as the same double):
  that printer is the parameter \<open>nts\<close>.  A plain object prints as
  \<^verbatim>\<open>[object Object]\<close>, unless it has a property \<^verbatim>\<open>toString\<close> of its own: a parsed
  JSON value is never a function, so the conversion then throws.  An array prints its
  elements separated by commas, \<^verbatim>\<open>null\<close> and \<^verbatim>\<open>undefined\<close> as nothing.
\<close>

fun join_comma :: "string list \<Rightarrow> string" where
  "join_comma [] = []"
| "join_comma [x] = x"
| "join_comma (x # y # ys) = x @ '','' @ join_comma (y # ys)"

fun sequenceE :: "(error + 'a) list \<Rightarrow> error + 'a list" where
  "sequenceE [] = Inr []"
| "sequenceE (x # xs) = (case x of
       Inl e \<Rightarrow> Inl e
     | Inr v \<Rightarrow> (case sequenceE xs of Inl e \<Rightarrow> Inl e | Inr vs \<Rightarrow> Inr (v # vs)))"

fun ToString :: "(jsnum \<Rightarrow> string) \<Rightarrow> jsval \<Rightarrow> error + string" where
  "ToString nts Undefined = Inr ''undefined''"
| "ToString nts Null = Inr ''null''"
| "ToString nts (Bool b) = Inr (if b then ''true'' else ''false'')"
| "ToString nts (Num n) = Inr (nts n)"
| "ToString nts (Str s) = Inr s"
| "ToString nts (Arr xs) =
     (case sequenceE (map (\<lambda>x. if x = Undefined \<or> x = Null then Inr [] else ToString nts x) xs) of
        Inl e \<Rightarrow> Inl e
      | Inr ss \<Rightarrow> Inr (join_comma ss))"
| "ToString nts (Obj kvs) =
     (if ''toString'' \<in> fst ` set kvs
      then Inl (TypeError ''Cannot convert object to primitive value'')
      else Inr ''[object Object]'')"

definition parseInt :: "(jsnum \<Rightarrow> string) \<Rightarrow> jsval \<Rightarrow> error + jsnum" where
  "parseInt nts x = (case ToString nts x of
       Inl e \<Rightarrow> Inl e
     | Inr s \<Rightarrow> Inr (parseInt_string s))"

subsection \<open>Truth, comparison, property access, array methods\<close>

fun truthy :: "jsval \<Rightarrow> bool" where
  "truthy Undefined = False"
| "truthy Null = False"
| "truthy (Bool b) = b"
| "truthy (Num n) = (n \<noteq> NaN \<and> n \<noteq> Fin 0)"
| "truthy (Str s) = (s \<noteq> [])"
| "truthy (Arr xs) = True"
| "truthy (Obj kvs) = True"

text \<open>\<^verbatim>\<open>v === n\<close> for a number \<open>n\<close>: no conversion, and \<open>NaN\<close> equals nothing.\<close>

definition strict_eq_num :: "jsval \<Rightarrow> jsnum \<Rightarrow> bool" where
  "strict_eq_num v n = (case v of Num m \<Rightarrow> m \<noteq> NaN \<and> n \<noteq> NaN \<and> m = n | _ \<Rightarrow> False)"

text \<open>\<^verbatim>\<open>a <= b\<close> on numbers: false as soon as one side is \<open>NaN\<close>.\<close>

fun num_le :: "jsnum \<Rightarrow> jsnum \<Rightarrow> bool" where
  "num_le NaN b = False"
| "num_le a NaN = False"
| "num_le NInf b = True"
| "num_le a PInf = True"
| "num_le PInf b = False"
| "num_le a NInf = False"
| "num_le (Fin x) (Fin y) = (x \<le> y)"

definition num_ge :: "jsnum \<Rightarrow> jsnum \<Rightarrow> bool" where
  "num_ge a b = num_le b a"

text \<open>
  \<^verbatim>\<open>v.k\<close>: reading a property of \<^verbatim>\<open>undefined\<close> or \<^verbatim>\<open>null\<close> throws.  An object gives the
  value stored under \<open>k\<close> (a parsed object holds each key once), or \<^verbatim>\<open>undefined\<close>.
  The names the program reads (\<^verbatim>\<open>Nationality\<close>, \<^verbatim>\<open>GalleryCountry\<close>, \<^verbatim>\<open>paintingID\<close>,
  \<^verbatim>\<open>gallery\<close>, \<^verbatim>\<open>galleryID\<close>, \<^verbatim>\<open>artist\<close>, \<^verbatim>\<open>artistID\<close>, \<^verbatim>\<open>yearOfWork\<close>, \<^verbatim>\<open>title\<close>,
  \<^verbatim>\<open>details\<close>, \<^verbatim>\<open>annotation\<close>, \<^verbatim>\<open>dominantColors\<close>, \<^verbatim>\<open>name\<close>) are no built-in members of
  objects, strings, numbers, booleans or arrays, so on those they are \<^verbatim>\<open>undefined\<close>.
\<close>

definition get_prop :: "jsval \<Rightarrow> string \<Rightarrow> error + jsval" where
  "get_prop v k = (case v of
       Undefined \<Rightarrow> Inl (TypeError (''Cannot read properties of undefined (reading '' @ k @ '')''))
     | Null \<Rightarrow> Inl (TypeError (''Cannot read properties of null (reading '' @ k @ '')''))
     | Obj kvs \<Rightarrow> Inr (case map_of kvs k of None \<Rightarrow> Undefined | Some x \<Rightarrow> x)
     | _ \<Rightarrow> Inr Undefined)"

text \<open>
  \<^verbatim>\<open>v.toLowerCase()\<close>: only a string has the method; on anything else the call throws.
\<close>

definition call_toLowerCase :: "jsval \<Rightarrow> error + string" where
  "call_toLowerCase v = (case v of
       Str s \<Rightarrow> Inr (toLowerCase s)
     | Undefined \<Rightarrow> Inl (TypeError ''Cannot read properties of undefined (reading toLowerCase)'')
     | Null \<Rightarrow> Inl (TypeError ''Cannot read properties of null (reading toLowerCase)'')
     | _ \<Rightarrow> Inl (TypeError ''toLowerCase is not a function''))"

text \<open>
  \<^verbatim>\<open>filter\<close>, \<^verbatim>\<open>find\<close> and \<^verbatim>\<open>some\<close> visit the elements in order; the callback's result
  counts by its truth; the first exception thrown by the callback ends the call.
  \<^verbatim>\<open>find\<close> and \<^verbatim>\<open>some\<close> stop at the first element the callback accepts.
\<close>

fun filterE :: "(jsval \<Rightarrow> error + bool) \<Rightarrow> jsval list \<Rightarrow> error + jsval list" where
  "filterE cb [] = Inr []"
| "filterE cb (x # xs) = (case cb x of
       Inl e \<Rightarrow> Inl e
     | Inr b \<Rightarrow> (case filterE cb xs of
                  Inl e \<Rightarrow> Inl e
                | Inr ys \<Rightarrow> Inr (if b then x # ys else ys)))"

fun findE :: "(jsval \<Rightarrow> error + bool) \<Rightarrow> jsval list \<Rightarrow> error + jsval" where
  "findE cb [] = Inr Undefined"
| "findE cb (x # xs) = (case cb x of
       Inl e \<Rightarrow> Inl e
     | Inr b \<Rightarrow> if b then Inr x else findE cb xs)"

fun someE :: "(jsval \<Rightarrow> error + bool) \<Rightarrow> jsval list \<Rightarrow> error + bool" where
  "someE cb [] = Inr False"
| "someE cb (x # xs) = (case cb x of
       Inl e \<Rightarrow> Inl e
     | Inr b \<Rightarrow> if b then Inr True else someE cb xs)"

text \<open>
  Calling the method on a value that is no array throws: \<^verbatim>\<open>undefined\<close> and \<^verbatim>\<open>null\<close>
  have no properties, and no other parsed value has a function under that name.
\<close>

definition not_an_array :: "string \<Rightarrow> jsval \<Rightarrow> error" where
  "not_an_array m v = (case v of
       Undefined \<Rightarrow> TypeError (''Cannot read properties of undefined (reading '' @ m @ '')'')
     | Null \<Rightarrow> TypeError (''Cannot read properties of null (reading '' @ m @ '')'')
     | _ \<Rightarrow> TypeError (m @ '' is not a function''))"

definition js_filter :: "jsval \<Rightarrow> (jsval \<Rightarrow> error + bool) \<Rightarrow> error + jsval" where
  "js_filter data cb = (case data of
       Arr xs \<Rightarrow> (case filterE cb xs of Inl e \<Rightarrow> Inl e | Inr ys \<Rightarrow> Inr (Arr ys))
     | _ \<Rightarrow> Inl (not_an_array ''filter'' data))"

definition js_find :: "jsval \<Rightarrow> (jsval \<Rightarrow> error + bool) \<Rightarrow> error + jsval" where
  "js_find data cb = (case data of
       Arr xs \<Rightarrow> findE cb xs
     | _ \<Rightarrow> Inl (not_an_array ''find'' data))"

definition js_some :: "jsval \<Rightarrow> (jsval \<Rightarrow> error + bool) \<Rightarrow> error + bool" where
  "js_some v cb = (case v of
       Arr xs \<Rightarrow> someE cb xs
     | _ \<Rightarrow> Inl (not_an_array ''some'' v))"

section \<open>The request pipeline\<close>

text \<open>
  A request carries its URL and its path parameters (always strings).  A response is
  the status code, the headers the program sets itself and the body.  The body is sent
  either as text (\<^verbatim>\<open>res.send\<close>) or as a value that Express serialises
  (\<^verbatim>\<open>res.json\<close>); the text is a literal of the program or the output of
  \<^verbatim>\<open>JSON.stringify(v, null, n)\<close>, kept as the value and the indentation.
  Writing to the console is no part of the response and is left out.
\<close>

record request =
  url :: string
  params :: "(string \<times> string) list"

definition param :: "request \<Rightarrow> string \<Rightarrow> string option" where
  "param req k = map_of (params req) k"

datatype payload = Literal string | Stringify jsval nat

datatype body = Send payload | Json jsval

record response =
  status :: nat
  headers :: "(string \<times> string) list"
  body :: body

text \<open>
  What lies outside the program: the directory of the script, the file system
  (\<^verbatim>\<open>fs.readFile\<close> fails with an I/O error or gives the text), \<^verbatim>\<open>JSON.parse\<close> (fails
  with a syntax error or gives the value) and the engine's printer of numbers.
\<close>

record env =
  dirname :: string
  readFile :: "string \<Rightarrow> error + string"
  JSON_parse :: "string \<Rightarrow> error + jsval"
  numberToString :: "jsnum \<Rightarrow> string"

definition fileArtist :: string where "fileArtist = ''artists.json''"
definition fileGallery :: string where "fileGallery = ''galleries.json''"
definition filePaintings :: string where "filePaintings = ''nested.json''"

text \<open>\<^verbatim>\<open>path.join\<close>, without its normalisation of the joined path.\<close>

definition path_join :: "string \<Rightarrow> string \<Rightarrow> string \<Rightarrow> string" where
  "path_join a b c = a @ ''/'' @ b @ ''/'' @ c"

definition formatJsonResponse :: "jsval \<Rightarrow> payload" where
  "formatJsonResponse data = Stringify data 2"

definition isArray :: "jsval \<Rightarrow> bool" where
  "isArray v = (case v of Arr xs \<Rightarrow> True | _ \<Rightarrow> False)"

definition array_length :: "jsval \<Rightarrow> nat" where
  "array_length v = (case v of Arr xs \<Rightarrow> length xs | _ \<Rightarrow> 0)"

text \<open>The \<^verbatim>\<open>catch\<close> branch of \<^verbatim>\<open>handleApiRequest\<close>: the error is logged, not sent.\<close>

definition internal_server_error :: "error \<Rightarrow> response" where
  "internal_server_error e =
     \<lparr>status = 500, headers = [], body = Send (Literal ''Internal Server Error'')\<rparr>"

definition handleApiRequest ::
  "env \<Rightarrow> string \<Rightarrow> string \<Rightarrow> (jsval \<Rightarrow> request \<Rightarrow> error + jsval) \<Rightarrow> string \<Rightarrow> request \<Rightarrow> response"
where
  "handleApiRequest E directory filename filterFunction errorMessage req =
     (let filePath = path_join (dirname E) directory filename in
      case readFile E filePath of
        Inl e \<Rightarrow> internal_server_error e
      | Inr data \<Rightarrow>
          (case JSON_parse E data of
             Inl e \<Rightarrow> internal_server_error e
           | Inr jsonData \<Rightarrow>
               (case filterFunction jsonData req of
                  Inl e \<Rightarrow> internal_server_error e
                | Inr filteredData \<Rightarrow>
                    if filteredData \<noteq> Undefined \<and>
                       (if isArray filteredData then 0 < array_length filteredData else True)
                    then \<lparr>status = 200,
                          headers = [(''Content-Type'', ''application/json'')],
                          body = Send (formatJsonResponse filteredData)\<rparr>
                    else \<lparr>status = 404,
                          headers = [],
                          body = Json (Obj [(''error'',
                            Str (''No data found for the specified criteria in '' @ url req))])\<rparr>)))"

subsection \<open>The routes\<close>

text \<open>\<^verbatim>\<open>GET /api/artists\<close>, \<^verbatim>\<open>/api/galleries\<close>, \<^verbatim>\<open>/api/paintings\<close>: no filtering.\<close>

definition all_filter :: "jsval \<Rightarrow> request \<Rightarrow> error + jsval" where
  "all_filter data req = Inr data"

definition get_artists :: "env \<Rightarrow> request \<Rightarrow> response" where
  "get_artists E req =
     handleApiRequest E (dirname E) fileArtist all_filter ''No artists found'' req"

definition get_galleries :: "env \<Rightarrow> request \<Rightarrow> response" where
  "get_galleries E req =
     handleApiRequest E (dirname E) fileGallery all_filter ''No galleries found'' req"

definition get_paintings :: "env \<Rightarrow> request \<Rightarrow> response" where
  "get_paintings E req =
     handleApiRequest E (dirname E) filePaintings all_filter ''Error getting paintings'' req"

text \<open>\<^verbatim>\<open>GET /api/artists/:country\<close> and \<^verbatim>\<open>GET /api/galleries/:country\<close>.\<close>

definition country_filter :: "string \<Rightarrow> jsval \<Rightarrow> request \<Rightarrow> error + jsval" where
  "country_filter field data req =
     (case call_toLowerCase (js_of_param (param req ''country'')) of
        Inl e \<Rightarrow> Inl e
      | Inr requested \<Rightarrow>
          js_filter data (\<lambda>r.
            case get_prop r field of
              Inl e \<Rightarrow> Inl e
            | Inr v \<Rightarrow> (case call_toLowerCase v of
                          Inl e \<Rightarrow> Inl e
                        | Inr s \<Rightarrow> Inr (s = requested))))"

definition artists_country_filter :: "jsval \<Rightarrow> request \<Rightarrow> error + jsval" where
  "artists_country_filter = country_filter ''Nationality''"

definition galleries_country_filter :: "jsval \<Rightarrow> request \<Rightarrow> error + jsval" where
  "galleries_country_filter = country_filter ''GalleryCountry''"

definition get_artists_country :: "env \<Rightarrow> request \<Rightarrow> response" where
  "get_artists_country E req =
     handleApiRequest E (dirname E) fileArtist artists_country_filter
       ''No artists found for the specified country'' req"

definition get_galleries_country :: "env \<Rightarrow> request \<Rightarrow> response" where
  "get_galleries_country E req =
     handleApiRequest E (dirname E) fileGallery galleries_country_filter
       ''No galleries found for the specified country'' req"

text \<open>
  \<^verbatim>\<open>GET /api/painting/:paintingID\<close>.  The route's own \<^verbatim>\<open>try\<close> never reaches its
  \<^verbatim>\<open>catch\<close>: \<^verbatim>\<open>Number\<close> does not throw on a string, and \<^verbatim>\<open>handleApiRequest\<close> catches what
  is thrown inside it.
\<close>

definition painting_id_filter :: "jsnum \<Rightarrow> jsval \<Rightarrow> request \<Rightarrow> error + jsval" where
  "painting_id_filter requestedPaintingID data req =
     js_find data (\<lambda>painting.
       case get_prop painting ''paintingID'' of
         Inl e \<Rightarrow> Inl e
       | Inr v \<Rightarrow> Inr (strict_eq_num v requestedPaintingID))"

definition get_painting :: "env \<Rightarrow> request \<Rightarrow> response" where
  "get_painting E req =
     (let requestedPaintingID = Number (param req ''paintingID'') in
      handleApiRequest E (dirname E) filePaintings (painting_id_filter requestedPaintingID)
        ''Painting not found'' req)"

text \<open>
  \<^verbatim>\<open>GET /api/painting/gallery/:galleryID\<close> and \<^verbatim>\<open>GET /api/painting/artist/:artistID\<close>:
  \<^verbatim>\<open>painting.gallery && painting.gallery.galleryID === requestedGalleryID\<close>.
\<close>

definition nested_id_match :: "string \<Rightarrow> string \<Rightarrow> jsnum \<Rightarrow> jsval \<Rightarrow> error + bool" where
  "nested_id_match outer inner requested painting =
     (case get_prop painting outer of
        Inl e \<Rightarrow> Inl e
      | Inr g \<Rightarrow>
          if \<not> truthy g then Inr False
          else (case get_prop g inner of
                  Inl e \<Rightarrow> Inl e
                | Inr v \<Rightarrow> Inr (strict_eq_num v requested)))"

definition painting_gallery_filter :: "jsnum \<Rightarrow> jsval \<Rightarrow> request \<Rightarrow> error + jsval" where
  "painting_gallery_filter requestedGalleryID data req =
     js_filter data (nested_id_match ''gallery'' ''galleryID'' requestedGalleryID)"

definition get_painting_gallery :: "env \<Rightarrow> request \<Rightarrow> response" where
  "get_painting_gallery E req =
     (case parseInt (numberToString E) (js_of_param (param req ''galleryID'')) of
        Inl e \<Rightarrow> internal_server_error e
      | Inr requestedGalleryID \<Rightarrow>
          handleApiRequest E (dirname E) filePaintings (painting_gallery_filter requestedGalleryID)
            ''No paintings found for the specified galleryID'' req)"

definition painting_artist_filter :: "(jsnum \<Rightarrow> string) \<Rightarrow> jsval \<Rightarrow> request \<Rightarrow> error + jsval" where
  "painting_artist_filter nts data req =
     (case parseInt nts (js_of_param (param req ''artistID'')) of
        Inl e \<Rightarrow> Inl e
      | Inr requestedArtistID \<Rightarrow>
          js_filter data (nested_id_match ''artist'' ''artistID'' requestedArtistID))"

definition get_painting_artist :: "env \<Rightarrow> request \<Rightarrow> response" where
  "get_painting_artist E req =
     handleApiRequest E (dirname E) filePaintings (painting_artist_filter (numberToString E))
       ''Error getting paintings by artist'' req"

text \<open>
  \<^verbatim>\<open>GET /api/painting/year/:min/:max\<close>:
  \<^verbatim>\<open>painting.yearOfWork && parseInt(painting.yearOfWork, 10) >= minYear &&
  parseInt(painting.yearOfWork, 10) <= maxYear\<close>.
\<close>

definition year_match :: "(jsnum \<Rightarrow> string) \<Rightarrow> jsnum \<Rightarrow> jsnum \<Rightarrow> jsval \<Rightarrow> error + bool" where
  "year_match nts minYear maxYear painting =
     (case get_prop painting ''yearOfWork'' of
        Inl e \<Rightarrow> Inl e
      | Inr y \<Rightarrow>
          if \<not> truthy y then Inr False
          else (case parseInt nts y of
                  Inl e \<Rightarrow> Inl e
                | Inr a \<Rightarrow>
                    if \<not> num_ge a minYear then Inr False
                    else (case parseInt nts y of
                            Inl e \<Rightarrow> Inl e
                          | Inr b \<Rightarrow> Inr (num_le b maxYear))))"

definition painting_year_filter :: "(jsnum \<Rightarrow> string) \<Rightarrow> jsval \<Rightarrow> request \<Rightarrow> error + jsval" where
  "painting_year_filter nts data req =
     (case parseInt nts (js_of_param (param req ''min'')) of
        Inl e \<Rightarrow> Inl e
      | Inr minYear \<Rightarrow>
          (case parseInt nts (js_of_param (param req ''max'')) of
             Inl e \<Rightarrow> Inl e
           | Inr maxYear \<Rightarrow> js_filter data (year_match nts minYear maxYear)))"

definition get_painting_year :: "env \<Rightarrow> request \<Rightarrow> response" where
  "get_painting_year E req =
     handleApiRequest E (dirname E) filePaintings (painting_year_filter (numberToString E))
       ''Error getting paintings by year range'' req"

text \<open>
  \<^verbatim>\<open>GET /api/painting/title/:text\<close>:
  \<^verbatim>\<open>painting.title && painting.title.toLowerCase().includes(searchText)\<close>.
\<close>

definition title_match :: "string \<Rightarrow> jsval \<Rightarrow> error + bool" where
  "title_match searchText painting =
     (case get_prop painting ''title'' of
        Inl e \<Rightarrow> Inl e
      | Inr t \<Rightarrow>
          if \<not> truthy t then Inr False
          else (case call_toLowerCase t of
                  Inl e \<Rightarrow> Inl e
                | Inr s \<Rightarrow> Inr (includes_str s searchText)))"

definition painting_title_filter :: "jsval \<Rightarrow> request \<Rightarrow> error + jsval" where
  "painting_title_filter data req =
     (case call_toLowerCase (js_of_param (param req ''text'')) of
        Inl e \<Rightarrow> Inl e
      | Inr searchText \<Rightarrow> js_filter data (title_match searchText))"

definition get_painting_title :: "env \<Rightarrow> request \<Rightarrow> response" where
  "get_painting_title E req =
     handleApiRequest E (dirname E) filePaintings painting_title_filter
       ''Error getting paintings by title'' req"

text \<open>
  \<^verbatim>\<open>GET /api/painting/color/:name\<close>.  For one dominant colour:
  \<^verbatim>\<open>color.name ? color.name.toLowerCase().trim() : ''\<close>, then
  \<^verbatim>\<open>includes(searchColorName)\<close>.
\<close>

definition color_entry_match :: "string \<Rightarrow> jsval \<Rightarrow> error + bool" where
  "color_entry_match searchColorName color =
     (case get_prop color ''name'' of
        Inl e \<Rightarrow> Inl e
      | Inr n \<Rightarrow>
          if truthy n
          then (case call_toLowerCase n of
                  Inl e \<Rightarrow> Inl e
                | Inr s \<Rightarrow> Inr (includes_str (trim s) searchColorName))
          else Inr (includes_str [] searchColorName))"

definition color_match :: "string \<Rightarrow> jsval \<Rightarrow> error + bool" where
  "color_match searchColorName painting =
     (case get_prop painting ''details'' of
        Inl e \<Rightarrow> Inl e
      | Inr d \<Rightarrow>
          if \<not> truthy d then Inr False
          else (case get_prop d ''annotation'' of
                  Inl e \<Rightarrow> Inl e
                | Inr a \<Rightarrow>
                    if \<not> truthy a then Inr False
                    else (case get_prop a ''dominantColors'' of
                            Inl e \<Rightarrow> Inl e
                          | Inr cs \<Rightarrow>
                              if \<not> truthy cs then Inr False
                              else js_some cs (color_entry_match searchColorName))))"

definition painting_color_filter :: "jsval \<Rightarrow> request \<Rightarrow> error + jsval" where
  "painting_color_filter data req =
     (case call_toLowerCase (js_of_param (param req ''name'')) of
        Inl e \<Rightarrow> Inl e
      | Inr searchColorName \<Rightarrow> js_filter data (color_match searchColorName))"

definition get_painting_color :: "env \<Rightarrow> request \<Rightarrow> response" where
  "get_painting_color E req =
     handleApiRequest E (dirname E) filePaintings painting_color_filter
       ''Error getting paintings by color'' req"

section \<open>The data model of the specification\<close>

text \<open>
  A dataset is a sequence of records.  \<open>field v k\<close> reads a field of a record without
  failing: \<^verbatim>\<open>undefined\<close> when the field, or the record, is absent.
\<close>

definition is_record :: "jsval \<Rightarrow> bool" where
  "is_record v = (case v of Obj kvs \<Rightarrow> True | _ \<Rightarrow> False)"

definition field :: "jsval \<Rightarrow> string \<Rightarrow> jsval" where
  "field v k = (case v of
       Obj kvs \<Rightarrow> (case map_of kvs k of None \<Rightarrow> Undefined | Some x \<Rightarrow> x)
     | _ \<Rightarrow> Undefined)"

definition is_primitive :: "jsval \<Rightarrow> bool" where
  "is_primitive v = (case v of Arr xs \<Rightarrow> False | Obj kvs \<Rightarrow> False | _ \<Rightarrow> True)"

definition is_string :: "jsval \<Rightarrow> bool" where
  "is_string v = (case v of Str s \<Rightarrow> True | _ \<Rightarrow> False)"

definition absent_or_string :: "jsval \<Rightarrow> bool" where
  "absent_or_string v = (\<not> truthy v \<or> is_string v)"

text \<open>A painting whose \<^verbatim>\<open>yearOfWork\<close>, when it has one, is a string or a number.\<close>

definition year_wellformed :: "jsval \<Rightarrow> bool" where
  "year_wellformed p = (is_record p \<and> is_primitive (field p ''yearOfWork''))"

text \<open>A painting whose \<^verbatim>\<open>title\<close>, when it has one, is a string.\<close>

definition title_wellformed :: "jsval \<Rightarrow> bool" where
  "title_wellformed p = (is_record p \<and> absent_or_string (field p ''title''))"

text \<open>
  \<^verbatim>\<open>details.annotation.dominantColors\<close> of a painting, \<^verbatim>\<open>undefined\<close> when a step is
  absent; well formed when it is absent or a sequence of records whose \<^verbatim>\<open>name\<close>, when
  they have one, is a string.
\<close>

definition dominantColors :: "jsval \<Rightarrow> jsval" where
  "dominantColors p = field (field (field p ''details'') ''annotation'') ''dominantColors''"

definition color_entry_wellformed :: "jsval \<Rightarrow> bool" where
  "color_entry_wellformed c = (is_record c \<and> absent_or_string (field c ''name''))"

definition colors_wellformed :: "jsval \<Rightarrow> bool" where
  "colors_wellformed p = (is_record p \<and>
     (case dominantColors p of
        Arr cs \<Rightarrow> list_all color_entry_wellformed cs
      | v \<Rightarrow> \<not> truthy v))"

subsection \<open>The selectors as the specification words them\<close>

text \<open>
  Year range, as the specification states it: \<^verbatim>\<open>yearOfWork\<close> present (the record has
  the field, and it is not \<^verbatim>\<open>null\<close>) and \<open>min \<le> parseInt(yearOfWork) \<le> max\<close>, both ends
  included.
\<close>

definition in_year_range_as_stated ::
  "(jsnum \<Rightarrow> string) \<Rightarrow> jsnum \<Rightarrow> jsnum \<Rightarrow> jsval \<Rightarrow> bool"
where
  "in_year_range_as_stated nts lo hi p =
     (field p ''yearOfWork'' \<noteq> Undefined \<and> field p ''yearOfWork'' \<noteq> Null \<and>
      (case parseInt nts (field p ''yearOfWork'') of
         Inl e \<Rightarrow> False
       | Inr n \<Rightarrow> num_le lo n \<and> num_le n hi))"

text \<open>
  Year range, with the program's test of presence: \<^verbatim>\<open>yearOfWork\<close> counts as true (it is
  not \<^verbatim>\<open>undefined\<close>, \<^verbatim>\<open>null\<close>, \<^verbatim>\<open>false\<close>, the number 0 or the empty string) and
  \<open>min \<le> parseInt(yearOfWork) \<le> max\<close>, both ends included.
\<close>

definition in_year_range :: "(jsnum \<Rightarrow> string) \<Rightarrow> jsnum \<Rightarrow> jsnum \<Rightarrow> jsval \<Rightarrow> bool" where
  "in_year_range nts lo hi p =
     (truthy (field p ''yearOfWork'') \<and>
      (case parseInt nts (field p ''yearOfWork'') of
         Inl e \<Rightarrow> False
       | Inr n \<Rightarrow> num_le lo n \<and> num_le n hi))"

text \<open>
  Title: present (a string), and some part of it equals the query when letter case is
  ignored.
\<close>

definition contains_ignoring_case :: "string \<Rightarrow> string \<Rightarrow> bool" where
  "contains_ignoring_case t q =
     (\<exists>a m b. t = a @ m @ b \<and> toLowerCase m = toLowerCase q)"

definition title_contains :: "string \<Rightarrow> jsval \<Rightarrow> bool" where
  "title_contains q p =
     (case field p ''title'' of
        Str t \<Rightarrow> contains_ignoring_case t q
      | _ \<Rightarrow> False)"

text \<open>
  Colour: some entry of the dominant colours has a name that, lower-cased and trimmed,
  contains the lower-cased query; an entry without a name counts as the empty string.
\<close>

definition color_name :: "jsval \<Rightarrow> string" where
  "color_name c = (case field c ''name'' of Str s \<Rightarrow> s | _ \<Rightarrow> [])"

definition has_color :: "string \<Rightarrow> jsval \<Rightarrow> bool" where
  "has_color q p =
     (case dominantColors p of
        Arr cs \<Rightarrow> list_ex (\<lambda>c. includes_str (trim (toLowerCase (color_name c))) (toLowerCase q)) cs
      | _ \<Rightarrow> False)"

text \<open>Painting by id: numeric equality on \<^verbatim>\<open>paintingID\<close>.\<close>

definition has_painting_id :: "jsnum \<Rightarrow> jsval \<Rightarrow> bool" where
  "has_painting_id n p = strict_eq_num (field p ''paintingID'') n"



text \<open>A text without any decimal digit.\<close>

definition no_digit :: "string \<Rightarrow> bool" where
  "no_digit s = list_all (\<lambda>c. \<not> is_digit c) s"

text \<open>
  A text that is blank (empty once trimmed), and a text that is the literal
  \<^verbatim>\<open>Infinity\<close> with an optional sign, possibly surrounded by white space.
\<close>

definition is_blank :: "string \<Rightarrow> bool" where
  "is_blank s = (trim s = [])"

definition is_infinity_literal :: "string \<Rightarrow> bool" where
  "is_infinity_literal s = (snd (strip_sign (trim s)) = ''Infinity'')"

text \<open>
  What each parser reads as a number.  \<^verbatim>\<open>parseInt\<close> needs a decimal digit right after
  the leading white space and the optional sign.  \<^verbatim>\<open>Number\<close> needs the whole trimmed
  text to be a literal: hexadecimal, octal or binary, or an optional sign before
  \<^verbatim>\<open>Infinity\<close> or a decimal literal.
\<close>

definition has_leading_digit :: "string \<Rightarrow> bool" where
  "has_leading_digit s =
     (case snd (strip_sign (trim_start s)) of [] \<Rightarrow> False | c # r \<Rightarrow> is_digit c)"

definition is_numeric_literal :: "string \<Rightarrow> bool" where
  "is_numeric_literal s =
     (let t = trim s; u = snd (strip_sign t)
      in nondecimal_literal t \<noteq> None \<or> u = ''Infinity'' \<or> unsigned_decimal u \<noteq> None)"

subsection \<open>Sample data\<close>

text \<open>
  An environment in which every file is read and parsed to the given value (its printer
  of numbers is right for the number 0, the only number the examples print), and the
  painting of the specification's scenario.
\<close>

definition loaded :: "jsval \<Rightarrow> env" where
  "loaded d = \<lparr>dirname = ''/srv'', readFile = (\<lambda>f. Inr ''(file)''),
     JSON_parse = (\<lambda>t. Inr d), numberToString = (\<lambda>n. ''0'')\<rparr>"

definition starry_night :: jsval where
  "starry_night = Obj
     [(''paintingID'', Num (Fin 1)),
      (''title'', Str ''Starry Night''),
      (''yearOfWork'', Str ''1889''),
      (''artist'', Obj [(''artistID'', Num (Fin 7))]),
      (''gallery'', Obj [(''galleryID'', Num (Fin 3))]),
      (''details'', Obj [(''annotation'', Obj [(''dominantColors'',
         Arr [Obj [(''name'', Str ''Navy Blue'')]])])])]"

definition request_with :: "string \<Rightarrow> (string \<times> string) list \<Rightarrow> request" where
  "request_with u ps = \<lparr>url = u, params = ps\<rparr>"

definition two_fives :: "jsval list" where
  "two_fives = [Obj [(''paintingID'', Num (Fin 4)), (''title'', Str ''Zero'')],
                Obj [(''paintingID'', Num (Fin 5)), (''title'', Str ''First'')],
                Obj [(''paintingID'', Num (Fin 5)), (''title'', Str ''Second'')]]"



definition sunflowers :: jsval where
  "sunflowers = Obj [(''paintingID'', Num (Fin 2)), (''title'', Str ''Sunflowers'')]"

definition three_years :: "jsval list" where
  "three_years =
     [Obj [(''paintingID'', Num (Fin 1)), (''yearOfWork'', Str ''1989'')],
      Obj [(''paintingID'', Num (Fin 2)), (''yearOfWork'', Str ''1990'')],
      Obj [(''paintingID'', Num (Fin 3)), (''yearOfWork'', Str ''1991'')],
      Obj [(''paintingID'', Num (Fin 4))]]"

definition dark_red_painting :: jsval where
  "dark_red_painting = Obj
     [(''paintingID'', Num (Fin 9)),
      (''details'', Obj [(''annotation'', Obj [(''dominantColors'',
         Arr [Obj [(''web'', Str ''#000000'')], Obj [(''name'', Str ''  Dark Red  '')]])])])]"

definition unnamed_color_painting :: jsval where
  "unnamed_color_painting = Obj
     [(''paintingID'', Num (Fin 10)),
      (''details'', Obj [(''annotation'', Obj [(''dominantColors'',
         Arr [Obj [(''web'', Str ''#8B0000'')]])])])]"

definition painting_three :: jsval where
  "painting_three = Obj
     [(''paintingID'', Num (Fin 3)),
      (''yearOfWork'', Str ''3''),
      (''artist'', Obj [(''artistID'', Num (Fin 3))]),
      (''gallery'', Obj [(''galleryID'', Num (Fin 3))])]"

definition year_zero :: jsval where
  "year_zero = Obj [(''paintingID'', Num (Fin 11)), (''yearOfWork'', Num (Fin 0))]"

definition painting_zero :: jsval where
  "painting_zero = Obj [(''paintingID'', Num (Fin 0)), (''title'', Str ''Untitled'')]"

definition request_3abc :: request where
  "request_3abc = request_with ''/api/painting/3abc'' [(''paintingID'', ''3abc'')]"

text \<open>
  An environment with two files: the text of a file is its path, and the path of
  \<^verbatim>\<open>artists.json\<close> parses to the first value, any other path to the second.
\<close>

definition two_files :: "jsval \<Rightarrow> jsval \<Rightarrow> env" where
  "two_files a g = \<lparr>dirname = ''/srv'', readFile = (\<lambda>f. Inr f),
     JSON_parse = (\<lambda>t. if t = ''/srv//srv/artists.json'' then Inr a else Inr g),
     numberToString = (\<lambda>n. ''0'')\<rparr>"

definition artists_with_gap :: "jsval list" where
  "artists_with_gap =
     [Obj [(''ArtistID'', Num (Fin 1)), (''LastName'', Str ''Monet''), (''Nationality'', Str ''France'')],
      Obj [(''ArtistID'', Num (Fin 2)), (''LastName'', Str ''Unknown'')]]"

definition galleries_with_gap :: "jsval list" where
  "galleries_with_gap =
     [Obj [(''GalleryID'', Num (Fin 5)), (''GalleryName'', Str ''Louvre''),
           (''GalleryCountry'', Str ''France'')],
      Obj [(''GalleryID'', Num (Fin 6)), (''GalleryName'', Str ''Depot''),
           (''GalleryCountry'', Null)],
      Obj [(''GalleryID'', Num (Fin 7)), (''GalleryName'', Str ''Orsay''),
           (''GalleryCountry'', Str ''France'')]]"

definition bare_painting :: jsval where
  "bare_painting = Obj [(''paintingID'', Num (Fin 12))]"

definition mixed_request :: request where
  "mixed_request = request_with ''/api/painting/3abc''
     [(''paintingID'', ''3abc''), (''min'', ''x1''), (''max'', ''1890''),
      (''galleryID'', ''x1''), (''artistID'', ''x1'')]"

definition france_request :: request where
  "france_request = request_with ''/api/artists/France'' [(''country'', ''France'')]"

section \<open>Facts about the building blocks\<close>

subsection \<open>Small integers are doubles\<close>

lemma round_half_even_of_int: "round_half_even (of_int k) = k"
  by (simp add: round_half_even_def)

lemma round_binary64_of_nat:
  assumes "0 < n" and "n \<le> 2 ^ 53"
  shows "round_binary64 (of_nat n) = of_nat n"
proof -
  define e where "e = bitlen (int n) - 1"
  have npos: "0 < int n" using assms(1) by simp
  have b1: "1 \<le> bitlen (int n)"
    using npos bitlen_eq_zero_iff [of "int n"] bitlen_nonneg [of "int n"] by linarith
  then have e0: "0 \<le> e" by (simp add: e_def)
  have lo: "(2::int) ^ nat e \<le> int n"
    using bitlen_bounds [OF npos] by (simp add: e_def)
  have e53: "e \<le> 53"
  proof (rule ccontr)
    assume "\<not> e \<le> 53"
    then have "54 \<le> nat e" by simp
    then have "(2::int) ^ 54 \<le> 2 ^ nat e" by (intro power_increasing) simp_all
    with lo have "(2::int) ^ 54 \<le> int n" by linarith
    moreover have "int n \<le> 2 ^ 53" using assms(2) by (metis of_nat_le_iff of_nat_numeral of_nat_power)
    ultimately show False by simp
  qed
  have il: "ilog2 (of_nat n) = e"
    using assms(1) by (simp add: ilog2_def e_def)
  have s: "max (e - 52) (- 1074) = e - 52" using e0 by simp
  have neg: "- (e - 52) = 52 - e" by simp
  show ?thesis
  proof (cases "e \<le> 52")
    case True
    have up: "scale2 (of_nat n) (52 - e) = of_int (int n * 2 ^ nat (52 - e))"
      using True by (simp add: scale2_def)
    have rnd: "round_half_even (scale2 (of_nat n) (52 - e)) = int n * 2 ^ nat (52 - e)"
      by (simp only: up round_half_even_of_int)
    have unscale: "scale2 (of_int (int n * 2 ^ nat (52 - e))) (e - 52) = of_nat n"
    proof (cases "e = 52")
      case True
      then show ?thesis by (simp add: scale2_def)
    next
      case False
      with \<open>e \<le> 52\<close> have "e - 52 < 0" by simp
      then show ?thesis by (simp add: scale2_def)
    qed
    show ?thesis
      unfolding round_binary64_def il s Let_def neg rnd by (rule unscale)
  next
    case False
    with e53 have e: "e = 53" by simp
    with lo have "(2::int) ^ 53 \<le> int n" by simp
    moreover have "int n \<le> 2 ^ 53" using assms(2) by (metis of_nat_le_iff of_nat_numeral of_nat_power)
    ultimately have n: "int n = 2 ^ 53" by simp
    then have n': "(of_nat n :: rat) = 2 ^ 53" by (metis of_int_of_nat_eq of_int_numeral of_int_power)
    have half: "scale2 (2 ^ 53) (- 1) = of_int (2 ^ 52)" by (simp add: scale2_def)
    have rnd: "round_half_even (scale2 (2 ^ 53) (- 1)) = 2 ^ 52"
      by (simp only: half round_half_even_of_int)
    have unscale: "scale2 (of_int (2 ^ 52)) 1 = 2 ^ 53" by (simp add: scale2_def)
    have il53: "ilog2 (2 ^ 53) = 53" using il unfolding n' e .
    have s53: "max ((53::int) - 52) (- 1074) = 1" by simp
    show ?thesis
      unfolding n' round_binary64_def il53 Let_def s53 rnd by (rule unscale)
  qed
qed

lemma to_double_of_nat: "n \<le> 2 ^ 53 \<Longrightarrow> to_double (of_nat n) = Fin (of_nat n)"
proof (cases "n = 0")
  case True
  then show ?thesis by (simp add: to_double_def)
next
  case False
  assume le: "n \<le> 2 ^ 53"
  from False have pos: "0 < n" by simp
  have small: "\<not> (2::rat) ^ 1024 \<le> of_nat n"
  proof
    assume "(2::rat) ^ 1024 \<le> of_nat n"
    moreover have "(of_nat n :: rat) \<le> 2 ^ 53" using le by (metis of_nat_le_iff of_nat_numeral of_nat_power)
    moreover have "(2::rat) ^ 53 < 2 ^ 1024" by (intro power_strict_increasing) simp_all
    ultimately show False by linarith
  qed
  show ?thesis
    using False small by (simp add: to_double_def Let_def round_binary64_of_nat [OF pos le])
qed

lemma to_double_neg_of_nat: "n \<le> 2 ^ 53 \<Longrightarrow> to_double (- of_nat n) = Fin (- of_nat n)"
proof (cases "n = 0")
  case True
  then show ?thesis by (simp add: to_double_def)
next
  case False
  assume le: "n \<le> 2 ^ 53"
  from False have pos: "0 < n" by simp
  have small: "\<not> (2::rat) ^ 1024 \<le> of_nat n"
  proof
    assume "(2::rat) ^ 1024 \<le> of_nat n"
    moreover have "(of_nat n :: rat) \<le> 2 ^ 53" using le by (metis of_nat_le_iff of_nat_numeral of_nat_power)
    moreover have "(2::rat) ^ 53 < 2 ^ 1024" by (intro power_strict_increasing) simp_all
    ultimately show False by linarith
  qed
  show ?thesis
    using False small by (simp add: to_double_def Let_def round_binary64_of_nat [OF pos le])
qed

lemma to_double_numeral:
  "numeral k \<le> (2::nat) ^ 53 \<Longrightarrow> to_double (numeral k) = Fin (numeral k)"
  using to_double_of_nat [of "numeral k"] by simp

lemma to_double_neg_numeral:
  "numeral k \<le> (2::nat) ^ 53 \<Longrightarrow> to_double (- numeral k) = Fin (- numeral k)"
  using to_double_neg_of_nat [of "numeral k"] by simp

lemma to_double_0: "to_double 0 = Fin 0"
  by (simp add: to_double_def)
lemma to_double_1: "to_double 1 = Fin 1"
  using to_double_of_nat [of 1] by simp


lemma filterE_pure:
  "(\<And>x. x \<in> set xs \<Longrightarrow> cb x = Inr (P x)) \<Longrightarrow> filterE cb xs = Inr (filter P xs)"
  by (induction xs) simp_all

lemma findE_pure:
  "(\<And>x. x \<in> set xs \<Longrightarrow> cb x = Inr (P x)) \<Longrightarrow>
     findE cb xs = Inr (case find P xs of None \<Rightarrow> Undefined | Some x \<Rightarrow> x)"
  by (induction xs) simp_all

lemma someE_pure:
  "(\<And>x. x \<in> set xs \<Longrightarrow> cb x = Inr (P x)) \<Longrightarrow> someE cb xs = Inr (list_ex P xs)"
  by (induction xs) simp_all

lemma filterE_error:
  "x \<in> set xs \<Longrightarrow> cb x = Inl e \<Longrightarrow> \<exists>e'. filterE cb xs = Inl e'"
  by (induction xs) (auto split: sum.splits)

lemma includes_str_iff: "includes_str s t \<longleftrightarrow> (\<exists>a b. s = a @ t @ b)"
proof (induction s)
  case Nil
  then show ?case by auto
next
  case (Cons c s)
  show ?case
  proof
    assume "includes_str (c # s) t"
    then consider "prefix t (c # s)" | "includes_str s t" by auto
    then show "\<exists>a b. c # s = a @ t @ b"
    proof cases
      case 1
      then obtain b where "c # s = t @ b" by (auto simp: prefix_def)
      then have "c # s = [] @ t @ b" by simp
      then show ?thesis by blast
    next
      case 2
      with Cons.IH obtain a b where "s = a @ t @ b" by blast
      then have "c # s = (c # a) @ t @ b" by simp
      then show ?thesis by blast
    qed
  next
    assume "\<exists>a b. c # s = a @ t @ b"
    then obtain a b where ab: "c # s = a @ t @ b" by blast
    show "includes_str (c # s) t"
    proof (cases a)
      case Nil
      with ab have "prefix t (c # s)" by (simp add: prefix_def)
      then show ?thesis by simp
    next
      case (Cons a0 a')
      with ab have "s = a' @ t @ b" by simp
      with Cons.IH have "includes_str s t" by blast
      then show ?thesis by simp
    qed
  qed
qed

lemma get_prop_record: "is_record v \<Longrightarrow> get_prop v k = Inr (field v k)"
  by (cases v) (simp_all add: is_record_def get_prop_def field_def)

lemma get_prop_truthy: "truthy v \<Longrightarrow> get_prop v k = Inr (field v k)"
  by (cases v) (simp_all add: get_prop_def field_def)

lemma handleApiRequest_loaded:
  assumes "readFile E (path_join (dirname E) directory filename) = Inr d"
    and "JSON_parse E d = Inr j"
  shows "handleApiRequest E directory filename filterFunction errorMessage req =
     (case filterFunction j req of
        Inl e \<Rightarrow> internal_server_error e
      | Inr v \<Rightarrow>
          if v \<noteq> Undefined \<and> (if isArray v then 0 < array_length v else True)
          then \<lparr>status = 200, headers = [(''Content-Type'', ''application/json'')],
                body = Send (formatJsonResponse v)\<rparr>
          else \<lparr>status = 404, headers = [],
                body = Json (Obj [(''error'',
                  Str (''No data found for the specified criteria in '' @ url req))])\<rparr>)"
  using assms by (simp add: handleApiRequest_def)

lemma loaded_simps:
  "readFile (loaded d) f = Inr ''(file)''"
  "JSON_parse (loaded d) t = Inr d"
  "dirname (loaded d) = ''/srv''"
  "numberToString (loaded d) n = ''0''"
  by (simp_all add: loaded_def)

lemma handleApiRequest_on_loaded:
  "handleApiRequest (loaded j) directory filename filterFunction errorMessage req =
     (case filterFunction j req of
        Inl e \<Rightarrow> internal_server_error e
      | Inr v \<Rightarrow>
          if v \<noteq> Undefined \<and> (if isArray v then 0 < array_length v else True)
          then \<lparr>status = 200, headers = [(''Content-Type'', ''application/json'')],
                body = Send (formatJsonResponse v)\<rparr>
          else \<lparr>status = 404, headers = [],
                body = Json (Obj [(''error'',
                  Str (''No data found for the specified criteria in '' @ url req))])\<rparr>)"
  by (rule handleApiRequest_loaded) (simp_all add: loaded_simps)

subsection \<open>Evaluating the string and number functions\<close>

lemmas parse_simps = parseInt_string_def trim_start_def is_space_def code_unit_def strip_sign_def
  is_digit_def digits_val_def digit_val_def to_double_numeral to_double_neg_numeral
  to_double_0 to_double_1

lemmas number_simps = Number_def Number_string_def trim_def nondecimal_literal_def
  unsigned_decimal_def exponent_part_def scale10_def is_hex_digit_def is_oct_digit_def
  is_bin_digit_def

lemmas char_simps = code_unit_def is_upper_def lower_char_def toLowerCase_def char_of_def bit_0
  is_space_def trim_def

lemmas filter_simps = country_filter_def js_of_param_def call_toLowerCase_def js_filter_def
  js_find_def js_some_def get_prop_def param_def request_with_def

lemma Number_5: "Number (Some ''5'') = Fin 5"
  by (simp add: parse_simps number_simps)

subsection \<open>Letter case\<close>


lemma code_unit_less: "code_unit c < 256"
  unfolding code_unit_def by (rule nat_of_char_less_256)







subsection \<open>The selectors on well-formed data\<close>

lemma get_prop_cases:
  "(\<exists>e. get_prop v k = Inl e \<and> (v = Undefined \<or> v = Null)) \<or>
   (get_prop v k = Inr (field v k) \<and> v \<noteq> Undefined \<and> v \<noteq> Null)"
  by (cases v) (simp_all add: get_prop_def field_def)

lemma country_filter_error:
  assumes "param req ''country'' = Some c" and "r \<in> set rs"
    and "field r f = Undefined \<or> field r f = Null"
  shows "\<exists>e. country_filter f (Arr rs) req = Inl e"
proof -
  let ?cb = "\<lambda>r. case get_prop r f of Inl e \<Rightarrow> Inl e
     | Inr v \<Rightarrow> (case call_toLowerCase v of Inl e \<Rightarrow> Inl e | Inr s \<Rightarrow> Inr (s = toLowerCase c))"
  have "\<exists>e. ?cb r = Inl e"
    using get_prop_cases [of r f] assms(3) by (auto simp: call_toLowerCase_def)
  then obtain e where "?cb r = Inl e" ..
  from filterE_error [where cb = ?cb, OF assms(2) this]
  obtain e' where "filterE ?cb rs = Inl e'" ..
  then show ?thesis
    using assms(1) by (simp add: country_filter_def js_of_param_def call_toLowerCase_def js_filter_def)
qed

lemma painting_id_filter_records:
  assumes "list_all is_record ps"
  shows "painting_id_filter n (Arr ps) req =
     Inr (case find (has_painting_id n) ps of None \<Rightarrow> Undefined | Some p \<Rightarrow> p)"
proof -
  have "findE (\<lambda>painting. case get_prop painting ''paintingID'' of Inl e \<Rightarrow> Inl e
           | Inr v \<Rightarrow> Inr (strict_eq_num v n)) ps
        = Inr (case find (has_painting_id n) ps of None \<Rightarrow> Undefined | Some p \<Rightarrow> p)"
  proof (rule findE_pure)
    fix x assume "x \<in> set ps"
    with assms have "is_record x" by (simp add: list_all_iff)
    then show "(case get_prop x ''paintingID'' of Inl e \<Rightarrow> Inl e
           | Inr v \<Rightarrow> Inr (strict_eq_num v n)) = Inr (has_painting_id n x)"
      by (simp add: get_prop_record has_painting_id_def)
  qed
  then show ?thesis by (simp add: painting_id_filter_def js_find_def)
qed

lemma find_first:
  "i < length ps \<Longrightarrow> P (ps ! i) \<Longrightarrow> (\<And>j. j < i \<Longrightarrow> \<not> P (ps ! j)) \<Longrightarrow> find P ps = Some (ps ! i)"
  by (simp add: find_Some_iff) blast

lemma find_none: "list_all (\<lambda>p. \<not> P p) ps \<Longrightarrow> find P ps = None"
  by (simp add: find_None_iff list_all_iff)

lemma js_filter_pure:
  assumes "\<And>x. x \<in> set xs \<Longrightarrow> cb x = Inr (P x)"
  shows "js_filter (Arr xs) cb = Inr (Arr (filter P xs))"
  using filterE_pure [where cb = cb and P = P and xs = xs] assms
  by (simp add: js_filter_def)

lemma includes_lower_iff:
  "includes_str (toLowerCase t) (toLowerCase q) \<longleftrightarrow> contains_ignoring_case t q"
proof
  assume "includes_str (toLowerCase t) (toLowerCase q)"
  then obtain a b where "map lower_char t = a @ map lower_char q @ b"
    unfolding includes_str_iff toLowerCase_def by blast
  then have "\<exists>t1 t2. t = t1 @ t2 \<and> a = map lower_char t1 \<and>
      map lower_char q @ b = map lower_char t2"
    by (simp add: map_eq_append_conv)
  then obtain t1 t2 where t: "t = t1 @ t2"
    and t2: "map lower_char q @ b = map lower_char t2" by blast
  from t2 have "\<exists>m t3. t2 = m @ t3 \<and> map lower_char q = map lower_char m \<and>
      b = map lower_char t3"
    by (simp add: append_eq_map_conv)
  then obtain m t3 where "t2 = m @ t3" and "map lower_char m = map lower_char q"
    by auto
  with t have "t = t1 @ m @ t3 \<and> toLowerCase m = toLowerCase q"
    by (simp add: toLowerCase_def)
  then show "contains_ignoring_case t q" unfolding contains_ignoring_case_def by blast
next
  assume "contains_ignoring_case t q"
  then obtain a m b where "t = a @ m @ b" and "toLowerCase m = toLowerCase q"
    unfolding contains_ignoring_case_def by blast
  then have "toLowerCase t = toLowerCase a @ toLowerCase q @ toLowerCase b"
    by (simp add: toLowerCase_def)
  then show "includes_str (toLowerCase t) (toLowerCase q)"
    unfolding includes_str_iff by blast
qed

lemma contains_ignoring_case_Nil: "q \<noteq> [] \<Longrightarrow> \<not> contains_ignoring_case [] q"
  by (simp add: contains_ignoring_case_def toLowerCase_def)

lemma title_match_wellformed:
  assumes "title_wellformed p" and "q \<noteq> []"
  shows "title_match (toLowerCase q) p = Inr (title_contains q p)"
proof -
  from assms have r: "is_record p" and w: "absent_or_string (field p ''title'')"
    by (simp_all add: title_wellformed_def)
  show ?thesis
  proof (cases "truthy (field p ''title'')")
    case False
    then show ?thesis
      by (cases "field p ''title''")
         (simp_all add: title_match_def get_prop_record [OF r] title_contains_def
            contains_ignoring_case_Nil [OF assms(2)])
  next
    case True
    with w obtain s where s: "field p ''title'' = Str s"
      by (cases "field p ''title''") (simp_all add: absent_or_string_def is_string_def)
    with True have "s \<noteq> []" by simp
    then show ?thesis
      by (simp add: title_match_def get_prop_record [OF r] s call_toLowerCase_def
          title_contains_def includes_lower_iff)
  qed
qed

lemma painting_title_filter_wellformed:
  assumes "param req ''text'' = Some q" and "q \<noteq> []" and "list_all title_wellformed ps"
  shows "painting_title_filter (Arr ps) req = Inr (Arr (filter (title_contains q) ps))"
proof -
  have "js_filter (Arr ps) (title_match (toLowerCase q)) = Inr (Arr (filter (title_contains q) ps))"
    using assms(3)
    by (intro js_filter_pure title_match_wellformed [OF _ assms(2)]) (simp add: list_all_iff)
  then show ?thesis
    using assms(1) by (simp add: painting_title_filter_def js_of_param_def call_toLowerCase_def)
qed

lemma sun_in_Sunflowers: "includes_str (toLowerCase ''Sunflowers'') (toLowerCase ''sun'')"
  by (simp add: char_simps)

lemma ToString_primitive: "is_primitive y \<Longrightarrow> \<exists>s. ToString nts y = Inr s"
  by (cases y) (simp_all add: is_primitive_def)

lemma year_match_wellformed:
  assumes "year_wellformed p"
  shows "year_match nts lo hi p = Inr (in_year_range nts lo hi p)"
proof -
  from assms have r: "is_record p" and w: "is_primitive (field p ''yearOfWork'')"
    by (simp_all add: year_wellformed_def)
  from ToString_primitive [OF w] obtain s where "ToString nts (field p ''yearOfWork'') = Inr s" ..
  then have n: "parseInt nts (field p ''yearOfWork'') = Inr (parseInt_string s)"
    by (simp add: parseInt_def)
  show ?thesis
    by (simp add: year_match_def get_prop_record [OF r] in_year_range_def n num_ge_def)
qed

lemma parseInt_param: "parseInt nts (js_of_param (Some s)) = Inr (parseInt_string s)"
  by (simp add: parseInt_def js_of_param_def)

lemma painting_year_filter_wellformed:
  assumes "param req ''min'' = Some lo" and "param req ''max'' = Some hi"
    and "list_all year_wellformed ps"
  shows "painting_year_filter nts (Arr ps) req =
     Inr (Arr (filter (in_year_range nts (parseInt_string lo) (parseInt_string hi)) ps))"
proof -
  have "js_filter (Arr ps) (year_match nts (parseInt_string lo) (parseInt_string hi)) =
      Inr (Arr (filter (in_year_range nts (parseInt_string lo) (parseInt_string hi)) ps))"
    using assms(3) by (intro js_filter_pure year_match_wellformed) (simp add: list_all_iff)
  then show ?thesis
    by (simp add: painting_year_filter_def assms(1,2) parseInt_param)
qed

lemma parseInt_1990: "parseInt_string ''1990'' = Fin 1990"
  by (simp add: parse_simps)

lemma color_entry_match_wellformed:
  assumes "color_entry_wellformed c"
  shows "color_entry_match sq c = Inr (includes_str (trim (toLowerCase (color_name c))) sq)"
proof -
  from assms have r: "is_record c" and w: "absent_or_string (field c ''name'')"
    by (simp_all add: color_entry_wellformed_def)
  have empty: "trim (toLowerCase []) = []" by (simp add: trim_def toLowerCase_def)
  show ?thesis
  proof (cases "truthy (field c ''name'')")
    case False
    then have "color_name c = []"
      by (cases "field c ''name''") (simp_all add: color_name_def)
    with False show ?thesis
      by (simp add: color_entry_match_def get_prop_record [OF r] empty)
  next
    case True
    with w obtain s where s: "field c ''name'' = Str s"
      by (cases "field c ''name''") (simp_all add: absent_or_string_def is_string_def)
    with True show ?thesis
      by (simp add: color_entry_match_def get_prop_record [OF r] call_toLowerCase_def color_name_def)
  qed
qed

lemma field_not_truthy: "\<not> truthy v \<Longrightarrow> field v k = Undefined"
  by (cases v) (simp_all add: field_def)

lemma color_match_wellformed:
  assumes "colors_wellformed p"
  shows "color_match (toLowerCase q) p = Inr (has_color q p)"
proof -
  from assms have r: "is_record p" by (simp add: colors_wellformed_def)
  let ?d = "field p ''details''"
  let ?a = "field ?d ''annotation''"
  let ?cs = "field ?a ''dominantColors''"
  have cs: "dominantColors p = ?cs" by (simp add: dominantColors_def)
  show ?thesis
  proof (cases "truthy ?d \<and> truthy ?a \<and> truthy ?cs")
    case False
    then have "\<not> truthy ?cs"
      using field_not_truthy [of ?d "''annotation''"] field_not_truthy [of ?a "''dominantColors''"]
      by auto
    then have h: "\<not> has_color q p"
      by (cases ?cs) (simp_all add: has_color_def cs)
    from False show ?thesis
      by (auto simp: color_match_def get_prop_record [OF r] get_prop_truthy h)
  next
    case True
    with assms obtain es where es: "?cs = Arr es" and wes: "list_all color_entry_wellformed es"
      by (cases ?cs) (simp_all add: colors_wellformed_def cs)
    have "someE (color_entry_match (toLowerCase q)) es =
        Inr (list_ex (\<lambda>c. includes_str (trim (toLowerCase (color_name c))) (toLowerCase q)) es)"
      using wes by (intro someE_pure color_entry_match_wellformed) (simp add: list_all_iff)
    with True show ?thesis
      by (simp add: color_match_def get_prop_record [OF r] get_prop_truthy es js_some_def
          has_color_def cs)
  qed
qed

lemma painting_color_filter_wellformed:
  assumes "param req ''name'' = Some q" and "list_all colors_wellformed ps"
  shows "painting_color_filter (Arr ps) req = Inr (Arr (filter (has_color q) ps))"
proof -
  have "js_filter (Arr ps) (color_match (toLowerCase q)) = Inr (Arr (filter (has_color q) ps))"
    using assms(2) by (intro js_filter_pure color_match_wellformed) (simp add: list_all_iff)
  then show ?thesis
    using assms(1) by (simp add: painting_color_filter_def js_of_param_def call_toLowerCase_def)
qed

lemma dark_red: "color_entry_match (toLowerCase ''dark red'') (Obj [(''name'', Str ''  Dark Red  '')]) = Inr True"
  by (simp add: color_entry_match_def get_prop_def call_toLowerCase_def char_simps)

lemma toLowerCase_Nil_iff: "toLowerCase q = [] \<longleftrightarrow> q = []"
  by (simp add: toLowerCase_def)

lemma strip_sign_set: "strip_sign u = (neg, S) \<Longrightarrow> set S \<subseteq> set u"
  by (auto simp: strip_sign_def split: list.splits if_splits)

lemma set_trim_start: "set (trim_start s) \<subseteq> set s"
  by (auto simp: trim_start_def dest: set_dropWhileD)

lemma set_trim: "set (trim s) \<subseteq> set s"
  by (auto simp: trim_def dest!: set_dropWhileD)

lemma takeWhile_none: "(\<And>c. c \<in> set S \<Longrightarrow> \<not> P c) \<Longrightarrow> takeWhile P S = []"
  by (cases S) auto

lemma no_digit_parseInt_string:
  assumes "no_digit s"
  shows "parseInt_string s = NaN"
proof -
  obtain neg S where st: "strip_sign (trim_start s) = (neg, S)" by (cases "strip_sign (trim_start s)")
  have "set S \<subseteq> set s"
    using strip_sign_set [OF st] set_trim_start [of s] by blast
  with assms have "takeWhile is_digit S = []"
    by (intro takeWhile_none) (auto simp: no_digit_def list_all_iff)
  then show ?thesis by (simp add: parseInt_string_def st)
qed

lemma is_digit_zero: "is_digit CHR ''0''"
  by (simp add: is_digit_def code_unit_def)

lemma no_digit_Number_string:
  assumes "no_digit s" and "\<not> is_blank s" and "\<not> is_infinity_literal s"
  shows "Number_string s = NaN"
proof -
  let ?t = "trim s"
  have nd: "\<And>c. c \<in> set ?t \<Longrightarrow> \<not> is_digit c"
    using assms(1) set_trim [of s] by (auto simp: no_digit_def list_all_iff)
  have t: "?t \<noteq> []" using assms(2) by (simp add: is_blank_def)
  have nl: "nondecimal_literal ?t = None"
  proof (cases ?t)
    case Nil
    then show ?thesis by (simp add: nondecimal_literal_def)
  next
    case (Cons z r)
    then have "z \<noteq> CHR ''0''" using nd [of z] is_digit_zero by auto
    with Cons show ?thesis by (cases r) (simp_all add: nondecimal_literal_def)
  qed
  obtain neg u where st: "strip_sign ?t = (neg, u)" by (cases "strip_sign ?t")
  have u: "u \<noteq> ''Infinity''" using assms(3) st by (simp add: is_infinity_literal_def)
  have ndu: "\<And>c. c \<in> set u \<Longrightarrow> \<not> is_digit c"
    using strip_sign_set [OF st] nd by blast
  have ip: "takeWhile is_digit u = []" using ndu by (rule takeWhile_none)
  then have r1: "dropWhile is_digit u = u"
    by (metis takeWhile_dropWhile_id append_Nil)
  have "set (tl u) \<subseteq> set u" by (cases u) auto
  with ndu have fp: "takeWhile is_digit (tl u) = []"
    by (intro takeWhile_none) blast
  have "unsigned_decimal u = None"
    by (simp add: unsigned_decimal_def ip r1 fp Let_def)
  then show ?thesis using t nl st u by (simp add: Number_string_def)
qed

lemma strict_eq_num_NaN: "\<not> strict_eq_num v NaN"
  by (cases v) (simp_all add: strict_eq_num_def)

lemma num_le_NaN_right: "\<not> num_le n NaN"
  by (cases n) simp_all

lemma in_year_range_NaN: "lo = NaN \<or> hi = NaN \<Longrightarrow> \<not> in_year_range nts lo hi p"
  by (auto simp: in_year_range_def num_le_NaN_right split: sum.splits)

lemma nested_id_match_NaN:
  assumes "is_record p"
  shows "nested_id_match outer inner NaN p = Inr False"
  by (simp add: nested_id_match_def get_prop_record [OF assms] get_prop_truthy strict_eq_num_NaN)

lemma year_wellformed_record: "list_all year_wellformed ps \<Longrightarrow> list_all is_record ps"
  by (simp add: list_all_iff year_wellformed_def)

lemma status_404_empty:
  assumes "readFile E (path_join (dirname E) directory filename) = Inr d"
    and "JSON_parse E d = Inr j"
    and "filterFunction j req = Inr (Arr []) \<or> filterFunction j req = Inr Undefined"
  shows "status (handleApiRequest E directory filename filterFunction errorMessage req) = 404"
  using assms(3) by (auto simp: handleApiRequest_loaded [OF assms(1,2)] isArray_def array_length_def)

lemma digit_not_space_sign:
  "is_digit x \<Longrightarrow> \<not> is_space x \<and> x \<noteq> CHR ''-'' \<and> x \<noteq> CHR ''+''"
  by (auto simp: is_digit_def is_space_def code_unit_def)

lemma parseInt_string_digits_prefix:
  assumes "ds \<noteq> []" and "list_all is_digit ds" and "\<not> is_digit c"
  shows "parseInt_string (ds @ c # rest) = parseInt_string ds"
proof -
  from assms(1) obtain x xs where ds: "ds = x # xs" by (cases ds) auto
  with assms(2) have x: "is_digit x" by simp
  have all: "\<And>y. y \<in> set ds \<Longrightarrow> is_digit y" using assms(2) by (simp add: list_all_iff)
  have t1: "takeWhile is_digit (ds @ c # rest) = ds"
    using all assms(3) by (simp add: takeWhile_append2)
  have t2: "takeWhile is_digit ds = ds" using all by (simp add: takeWhile_eq_all_conv)
  have s1: "strip_sign (trim_start (ds @ c # rest)) = (False, ds @ c # rest)"
    using digit_not_space_sign [OF x] by (simp add: ds trim_start_def strip_sign_def)
  have s2: "strip_sign (trim_start ds) = (False, ds)"
    using digit_not_space_sign [OF x] by (simp add: ds trim_start_def strip_sign_def)
  show ?thesis by (simp add: parseInt_string_def s1 s2 t1 t2)
qed

lemmas route_simps = get_painting_def get_painting_gallery_def get_painting_artist_def
  get_painting_year_def handleApiRequest_on_loaded painting_id_filter_def
  painting_gallery_filter_def painting_artist_filter_def painting_year_filter_def
  nested_id_match_def year_match_def parseInt_def num_ge_def strict_eq_num_def isArray_def
  array_length_def loaded_simps

subsection \<open>Texts that are no number\<close>

lemma to_double_not_NaN: "to_double q \<noteq> NaN"
  by (simp add: to_double_def Let_def)

lemma parseInt_string_NaN_iff: "parseInt_string s = NaN \<longleftrightarrow> \<not> has_leading_digit s"
proof -
  obtain neg S where st: "strip_sign (trim_start s) = (neg, S)"
    by (cases "strip_sign (trim_start s)")
  show ?thesis
    by (cases S) (simp_all add: parseInt_string_def has_leading_digit_def st to_double_not_NaN Let_def)
qed

lemma Number_string_NaN_iff:
  "Number_string s = NaN \<longleftrightarrow> \<not> is_blank s \<and> \<not> is_numeric_literal s"
proof -
  obtain neg u where st: "strip_sign (trim s) = (neg, u)" by (cases "strip_sign (trim s)")
  show ?thesis
    by (simp add: Number_string_def is_blank_def is_numeric_literal_def st Let_def
        to_double_not_NaN split: option.splits)
qed

lemma no_digit_no_leading_digit: "no_digit s \<Longrightarrow> \<not> has_leading_digit s"
  using no_digit_parseInt_string parseInt_string_NaN_iff by blast

lemma no_digit_not_numeric_literal:
  "no_digit s \<Longrightarrow> \<not> is_blank s \<Longrightarrow> \<not> is_infinity_literal s \<Longrightarrow> \<not> is_numeric_literal s"
  using no_digit_Number_string Number_string_NaN_iff by blast

lemma painting_id_filter_NaN:
  assumes "list_all is_record ps"
  shows "painting_id_filter NaN (Arr ps) req = Inr Undefined"
proof -
  have "find (has_painting_id NaN) ps = None"
    by (simp add: find_None_iff has_painting_id_def strict_eq_num_NaN)
  then show ?thesis by (simp add: painting_id_filter_records [OF assms])
qed

lemma nested_filter_NaN:
  assumes "list_all is_record ps"
  shows "js_filter (Arr ps) (nested_id_match outer inner NaN) = Inr (Arr [])"
proof -
  have "js_filter (Arr ps) (nested_id_match outer inner NaN) =
      Inr (Arr (filter (\<lambda>p. False) ps))"
    using assms by (intro js_filter_pure nested_id_match_NaN) (simp add: list_all_iff)
  then show ?thesis by simp
qed

subsection \<open>Records without the field a selector reads\<close>

lemma nested_id_match_missing:
  assumes "is_record p" and "field p outer = Undefined \<or> field p outer = Null"
  shows "nested_id_match outer inner n p = Inr False"
  using assms(2) by (auto simp: nested_id_match_def get_prop_record [OF assms(1)])

lemma year_match_missing:
  assumes "is_record p" and "field p ''yearOfWork'' = Undefined \<or> field p ''yearOfWork'' = Null"
  shows "year_match nts lo hi p = Inr False"
  using assms(2) by (auto simp: year_match_def get_prop_record [OF assms(1)])

lemma title_match_missing:
  assumes "is_record p" and "field p ''title'' = Undefined \<or> field p ''title'' = Null"
  shows "title_match q p = Inr False"
  using assms(2) by (auto simp: title_match_def get_prop_record [OF assms(1)])

lemma color_match_missing:
  assumes "is_record p" and "dominantColors p = Undefined \<or> dominantColors p = Null"
  shows "color_match q p = Inr False"
proof -
  let ?d = "field p ''details''"
  let ?a = "field ?d ''annotation''"
  let ?cs = "field ?a ''dominantColors''"
  have "\<not> truthy ?cs" using assms(2) by (auto simp: dominantColors_def)
  then show ?thesis
    by (auto simp: color_match_def get_prop_record [OF assms(1)] get_prop_truthy)
qed

lemma country_route_error:
  assumes "param req ''country'' = Some c"
    and "readFile E (path_join (dirname E) (dirname E) file) = Inr d"
    and "JSON_parse E d = Inr (Arr rs)"
    and "r \<in> set rs"
    and "field r f = Undefined \<or> field r f = Null"
  shows "handleApiRequest E (dirname E) file (country_filter f) msg req =
     \<lparr>status = 500, headers = [], body = Send (Literal ''Internal Server Error'')\<rparr>"
proof -
  from country_filter_error [OF assms(1,4,5)]
  obtain e where "country_filter f (Arr rs) req = Inl e" ..
  then show ?thesis
    by (simp add: handleApiRequest_loaded [OF assms(2,3)] internal_server_error_def)
qed

section \<open>The claims\<close>

text \<open>
  C1, as stated, fails: a result that is \<^verbatim>\<open>null\<close> (the file \<^verbatim>\<open>artists.json\<close> holding
  \<^verbatim>\<open>null\<close>, returned as it is by the route of all artists) is no array and is not
  \<^verbatim>\<open>undefined\<close>, so the response is 200, not 404.
\<close>

theorem C1_null_result_counterexample:
  "all_filter Null (request_with ''/api/artists'' []) = Inr Null \<and> \<not> isArray Null \<and>
   status (get_artists (loaded Null) (request_with ''/api/artists'' [])) = 200 \<and>
   status (get_artists (loaded Null) (request_with ''/api/artists'' [])) \<noteq> 404"
  by (simp add: get_artists_def handleApiRequest_on_loaded all_filter_def isArray_def)

text \<open>
  C1, amended.  Once the file is read and parsed and the selector has returned \<open>v\<close>:
  for an array the response is 200 exactly when it is not empty, otherwise 404; for any
  other value the response is 200 exactly when it is not \<^verbatim>\<open>undefined\<close> (so also for
  \<^verbatim>\<open>null\<close>), otherwise 404.  In particular the empty string gives 200.
\<close>

theorem C1_resolver_classification:
  assumes "readFile E (path_join (dirname E) directory filename) = Inr d"
    and "JSON_parse E d = Inr j"
    and "filterFunction j req = Inr v"
  shows "status (handleApiRequest E directory filename filterFunction errorMessage req) =
           (if isArray v then (if 0 < array_length v then 200 else 404)
            else (if v \<noteq> Undefined then 200 else 404))
         \<and> (v = Str [] \<longrightarrow>
              status (handleApiRequest E directory filename filterFunction errorMessage req) = 200)"
  using assms by (cases v) (simp_all add: handleApiRequest_loaded [OF assms(1,2)] isArray_def)

theorem C1_resolver_classification_witness:
  "readFile (loaded (Str [])) (path_join (dirname (loaded (Str []))) ''/srv'' fileArtist) = Inr ''(file)''
   \<and> JSON_parse (loaded (Str [])) ''(file)'' = Inr (Str [])
   \<and> all_filter (Str []) (request_with ''/api/artists'' []) = Inr (Str [])
   \<and> status (handleApiRequest (loaded (Str [])) ''/srv'' fileArtist all_filter ''No artists found''
        (request_with ''/api/artists'' [])) = 200"
proof -
  have a: "readFile (loaded (Str [])) (path_join (dirname (loaded (Str []))) ''/srv'' fileArtist) = Inr ''(file)''"
    by (simp add: loaded_simps)
  have b: "JSON_parse (loaded (Str [])) ''(file)'' = Inr (Str [])" by (simp add: loaded_simps)
  have c: "all_filter (Str []) (request_with ''/api/artists'' []) = Inr (Str [])"
    by (simp add: all_filter_def)
  from C1_resolver_classification
      [where filterFunction = all_filter and v = "Str []" and errorMessage = "''No artists found''",
       OF a b c] a b c
  show ?thesis by simp
qed

text \<open>
  C2.  Whatever is thrown while the file is read, while it is parsed or while the
  selector runs is caught in \<^verbatim>\<open>handleApiRequest\<close>: the response is status 500 with the
  fixed body \<^verbatim>\<open>Internal Server Error\<close>, the same for every cause, and the handler
  always returns a response.
\<close>

theorem C2_errors_collapse:
  assumes "readFile E (path_join (dirname E) directory filename) = Inl e
     \<or> (\<exists>d. readFile E (path_join (dirname E) directory filename) = Inr d \<and>
           (JSON_parse E d = Inl e
            \<or> (\<exists>j. JSON_parse E d = Inr j \<and> filterFunction j req = Inl e)))"
  shows "handleApiRequest E directory filename filterFunction errorMessage req =
     \<lparr>status = 500, headers = [], body = Send (Literal ''Internal Server Error'')\<rparr>"
  using assms by (auto simp: handleApiRequest_def internal_server_error_def)

theorem C2_errors_collapse_witness:
  "handleApiRequest
     \<lparr>dirname = ''/srv'', readFile = (\<lambda>f. Inl (IOError ''ENOENT: no such file or directory'')),
      JSON_parse = (\<lambda>t. Inr Null), numberToString = (\<lambda>n. ''0'')\<rparr>
     ''/srv'' fileArtist all_filter ''No artists found'' (request_with ''/api/artists'' [])
   = \<lparr>status = 500, headers = [], body = Send (Literal ''Internal Server Error'')\<rparr>
   \<and> handleApiRequest
     \<lparr>dirname = ''/srv'', readFile = (\<lambda>f. Inr ''[{''),
      JSON_parse = (\<lambda>t. Inl (SyntaxError ''Unexpected end of JSON input'')),
      numberToString = (\<lambda>n. ''0'')\<rparr>
     ''/srv'' fileArtist all_filter ''No artists found'' (request_with ''/api/artists'' [])
   = \<lparr>status = 500, headers = [], body = Send (Literal ''Internal Server Error'')\<rparr>
   \<and> handleApiRequest (loaded (Arr [Null]))
     ''/srv'' fileArtist artists_country_filter ''No artists found for the specified country''
     (request_with ''/api/artists/France'' [(''country'', ''France'')])
   = \<lparr>status = 500, headers = [], body = Send (Literal ''Internal Server Error'')\<rparr>"
proof (intro conjI)
  show "handleApiRequest
     \<lparr>dirname = ''/srv'', readFile = (\<lambda>f. Inl (IOError ''ENOENT: no such file or directory'')),
      JSON_parse = (\<lambda>t. Inr Null), numberToString = (\<lambda>n. ''0'')\<rparr>
     ''/srv'' fileArtist all_filter ''No artists found'' (request_with ''/api/artists'' [])
   = \<lparr>status = 500, headers = [], body = Send (Literal ''Internal Server Error'')\<rparr>"
    by (rule C2_errors_collapse [where e = "IOError ''ENOENT: no such file or directory''"]) simp
  show "handleApiRequest
     \<lparr>dirname = ''/srv'', readFile = (\<lambda>f. Inr ''[{''),
      JSON_parse = (\<lambda>t. Inl (SyntaxError ''Unexpected end of JSON input'')),
      numberToString = (\<lambda>n. ''0'')\<rparr>
     ''/srv'' fileArtist all_filter ''No artists found'' (request_with ''/api/artists'' [])
   = \<lparr>status = 500, headers = [], body = Send (Literal ''Internal Server Error'')\<rparr>"
    by (rule C2_errors_collapse [where e = "SyntaxError ''Unexpected end of JSON input''"]) simp
  have "artists_country_filter (Arr [Null])
          (request_with ''/api/artists/France'' [(''country'', ''France'')])
        = Inl (TypeError ''Cannot read properties of null (reading Nationality)'')"
    by (simp add: artists_country_filter_def country_filter_def request_with_def param_def
        js_of_param_def call_toLowerCase_def js_filter_def get_prop_def)
  then show "handleApiRequest (loaded (Arr [Null]))
     ''/srv'' fileArtist artists_country_filter ''No artists found for the specified country''
     (request_with ''/api/artists/France'' [(''country'', ''France'')])
   = \<lparr>status = 500, headers = [], body = Send (Literal ''Internal Server Error'')\<rparr>"
    by (intro C2_errors_collapse
          [where e = "TypeError ''Cannot read properties of null (reading Nationality)''"])
       (simp add: loaded_simps)
qed

text \<open>
  C3, as stated, fails.  On the route by painting id the parameter \<^verbatim>\<open>" "\<close> (the URL
  \<^verbatim>\<open>/api/painting/%20\<close>) is no number, yet \<^verbatim>\<open>Number\<close> turns it into 0, not into
  \<open>NaN\<close>, and the painting whose \<^verbatim>\<open>paintingID\<close> is 0 is found: the response is 200;
  \<^verbatim>\<open>Number\<close> also reads \<^verbatim>\<open>Infinity\<close> as a number.  On the route by year range the
  bounds \<^verbatim>\<open>3abc\<close> are read by \<^verbatim>\<open>parseInt\<close> as 3, not as \<open>NaN\<close>, and the painting of the
  year 3 is found: the response is 200.
\<close>

theorem C3_parse_counterexample:
  "Number (Some '' '') = Fin 0 \<and> Number (Some '' '') \<noteq> NaN \<and>
   status (get_painting (loaded (Arr [painting_zero]))
             (request_with ''/api/painting/%20'' [(''paintingID'', '' '')])) = 200 \<and>
   Number (Some ''Infinity'') = PInf \<and>
   parseInt_string ''3abc'' = Fin 3 \<and> parseInt_string ''3abc'' \<noteq> NaN \<and>
   status (get_painting_year (loaded (Arr [painting_three]))
             (request_with ''/api/painting/year/3abc/3abc''
                [(''min'', ''3abc''), (''max'', ''3abc'')])) = 200"
  by (simp add: route_simps painting_zero_def painting_three_def filter_simps parse_simps
      number_simps)

text \<open>
  C3, amended.  On a dataset of painting records that is read and parsed, every numeric
  parameter that is non-numeric text parses to \<open>NaN\<close>, matches no record and gives the
  response 404, not 500, with two exceptions only: on the route by painting id
  (\<^verbatim>\<open>Number\<close>) a blank text and the literal \<^verbatim>\<open>Infinity\<close>, and on the routes that use
  \<^verbatim>\<open>parseInt\<close> (bounds of the year range, gallery id, artist id) a text that starts,
  after white space and an optional sign, with a decimal digit.  What is left is exactly
  the texts that the route's parser turns into \<open>NaN\<close>: for \<^verbatim>\<open>Number\<close> every text that
  is not blank and no literal (so \<^verbatim>\<open>x1\<close>, \<^verbatim>\<open>3abc\<close>, \<^verbatim>\<open>abc\<close>), for \<^verbatim>\<open>parseInt\<close> every
  text without a leading digit (so \<^verbatim>\<open>x1\<close>, \<^verbatim>\<open>abc\<close>); a text without any digit is among
  them.  The year route needs a dataset whose \<^verbatim>\<open>yearOfWork\<close> is a string or a number, the
  other routes any dataset of records.
\<close>

theorem C3_nan_parameter_not_found:
  assumes "readFile E (path_join (dirname E) (dirname E) filePaintings) = Inr d"
    and "JSON_parse E d = Inr (Arr ps)"
  shows "(list_all is_record ps \<and> param req ''paintingID'' = Some s \<and>
          \<not> is_blank s \<and> \<not> is_numeric_literal s \<longrightarrow>
            Number (Some s) = NaN \<and>
            painting_id_filter (Number (Some s)) (Arr ps) req = Inr Undefined \<and>
            status (get_painting E req) = 404)
       \<and> (list_all year_wellformed ps \<and> param req ''min'' = Some lo \<and> param req ''max'' = Some hi \<and>
          (\<not> has_leading_digit lo \<or> \<not> has_leading_digit hi) \<longrightarrow>
            (parseInt_string lo = NaN \<or> parseInt_string hi = NaN) \<and>
            painting_year_filter (numberToString E) (Arr ps) req = Inr (Arr []) \<and>
            status (get_painting_year E req) = 404)
       \<and> (list_all is_record ps \<and> param req ''galleryID'' = Some g \<and> \<not> has_leading_digit g \<longrightarrow>
            parseInt_string g = NaN \<and> status (get_painting_gallery E req) = 404)
       \<and> (list_all is_record ps \<and> param req ''artistID'' = Some a \<and> \<not> has_leading_digit a \<longrightarrow>
            parseInt_string a = NaN \<and> status (get_painting_artist E req) = 404)
       \<and> (Number (Some t) = NaN \<longleftrightarrow> \<not> is_blank t \<and> \<not> is_numeric_literal t)
       \<and> (parseInt_string t = NaN \<longleftrightarrow> \<not> has_leading_digit t)
       \<and> (no_digit t \<longrightarrow> \<not> has_leading_digit t)
       \<and> (no_digit t \<and> \<not> is_blank t \<and> \<not> is_infinity_literal t \<longrightarrow> \<not> is_numeric_literal t)"
proof -
  have id: "Number (Some s) = NaN \<and>
            painting_id_filter (Number (Some s)) (Arr ps) req = Inr Undefined \<and>
            status (get_painting E req) = 404"
    if "list_all is_record ps" "param req ''paintingID'' = Some s"
      "\<not> is_blank s" "\<not> is_numeric_literal s"
  proof -
    have n: "Number (Some s) = NaN"
      using that(3,4) by (simp add: Number_def Number_string_NaN_iff)
    have f: "painting_id_filter NaN (Arr ps) req = Inr Undefined"
      by (rule painting_id_filter_NaN [OF that(1)])
    have "status (get_painting E req) = 404"
      unfolding get_painting_def Let_def that(2) n
      by (rule status_404_empty [OF assms(1,2)]) (simp add: f)
    with n f show ?thesis by simp
  qed
  have year: "(parseInt_string lo = NaN \<or> parseInt_string hi = NaN) \<and>
            painting_year_filter (numberToString E) (Arr ps) req = Inr (Arr []) \<and>
            status (get_painting_year E req) = 404"
    if "list_all year_wellformed ps" "param req ''min'' = Some lo" "param req ''max'' = Some hi"
      "\<not> has_leading_digit lo \<or> \<not> has_leading_digit hi"
  proof -
    have n: "parseInt_string lo = NaN \<or> parseInt_string hi = NaN"
      using that(4) by (simp add: parseInt_string_NaN_iff)
    then have f: "painting_year_filter (numberToString E) (Arr ps) req = Inr (Arr [])"
      by (simp add: painting_year_filter_wellformed [OF that(2,3,1)] in_year_range_NaN)
    have "status (get_painting_year E req) = 404"
      unfolding get_painting_year_def
      by (rule status_404_empty [OF assms(1,2)]) (simp add: f)
    with n f show ?thesis by simp
  qed
  have gal: "parseInt_string g = NaN \<and> status (get_painting_gallery E req) = 404"
    if "list_all is_record ps" "param req ''galleryID'' = Some g" "\<not> has_leading_digit g"
  proof -
    have n: "parseInt_string g = NaN" using that(3) by (simp add: parseInt_string_NaN_iff)
    have "status (handleApiRequest E (dirname E) filePaintings (painting_gallery_filter NaN)
        ''No paintings found for the specified galleryID'' req) = 404"
      by (rule status_404_empty [OF assms(1,2)])
         (simp add: painting_gallery_filter_def nested_filter_NaN [OF that(1)])
    then show ?thesis
      by (simp add: get_painting_gallery_def that(2) parseInt_param n)
  qed
  have art: "parseInt_string a = NaN \<and> status (get_painting_artist E req) = 404"
    if "list_all is_record ps" "param req ''artistID'' = Some a" "\<not> has_leading_digit a"
  proof -
    have n: "parseInt_string a = NaN" using that(3) by (simp add: parseInt_string_NaN_iff)
    have "status (get_painting_artist E req) = 404"
      unfolding get_painting_artist_def
      by (rule status_404_empty [OF assms(1,2)])
         (simp add: painting_artist_filter_def that(2) parseInt_param n
            nested_filter_NaN [OF that(1)])
    with n show ?thesis by simp
  qed
  have c1: "Number (Some t) = NaN \<longleftrightarrow> \<not> is_blank t \<and> \<not> is_numeric_literal t"
    by (simp add: Number_def Number_string_NaN_iff)
  have c2: "parseInt_string t = NaN \<longleftrightarrow> \<not> has_leading_digit t"
    by (rule parseInt_string_NaN_iff)
  from id year gal art c1 c2 no_digit_no_leading_digit no_digit_not_numeric_literal
  show ?thesis by blast
qed

theorem C3_nan_parameter_not_found_witness:
  "readFile (loaded (Arr [starry_night]))
      (path_join (dirname (loaded (Arr [starry_night]))) (dirname (loaded (Arr [starry_night])))
         filePaintings) = Inr ''(file)''
   \<and> JSON_parse (loaded (Arr [starry_night])) ''(file)'' = Inr (Arr [starry_night])
   \<and> list_all is_record [starry_night]
   \<and> list_all year_wellformed [starry_night]
   \<and> param mixed_request ''paintingID'' = Some ''3abc''
   \<and> param mixed_request ''min'' = Some ''x1''
   \<and> param mixed_request ''max'' = Some ''1890''
   \<and> param mixed_request ''galleryID'' = Some ''x1''
   \<and> param mixed_request ''artistID'' = Some ''x1''
   \<and> \<not> is_blank ''3abc'' \<and> \<not> is_numeric_literal ''3abc''
   \<and> \<not> has_leading_digit ''x1''
   \<and> no_digit ''abc'' \<and> \<not> is_blank ''abc'' \<and> \<not> is_infinity_literal ''abc''
   \<and> \<not> is_numeric_literal ''abc'' \<and> \<not> has_leading_digit ''abc''
   \<and> Number (Some ''3abc'') = NaN
   \<and> parseInt_string ''x1'' = NaN
   \<and> status (get_painting (loaded (Arr [starry_night])) mixed_request) = 404
   \<and> status (get_painting_year (loaded (Arr [starry_night])) mixed_request) = 404
   \<and> status (get_painting_gallery (loaded (Arr [starry_night])) mixed_request) = 404
   \<and> status (get_painting_artist (loaded (Arr [starry_night])) mixed_request) = 404"
proof -
  let ?E = "loaded (Arr [starry_night])"
  have r: "readFile ?E (path_join (dirname ?E) (dirname ?E) filePaintings) = Inr ''(file)''"
    by (simp add: loaded_simps)
  have j: "JSON_parse ?E ''(file)'' = Inr (Arr [starry_night])" by (simp add: loaded_simps)
  have w: "list_all is_record [starry_night]" "list_all year_wellformed [starry_night]"
    by (simp_all add: year_wellformed_def is_record_def is_primitive_def field_def starry_night_def)
  have p: "param mixed_request ''paintingID'' = Some ''3abc''"
      "param mixed_request ''min'' = Some ''x1''"
      "param mixed_request ''max'' = Some ''1890''"
      "param mixed_request ''galleryID'' = Some ''x1''"
      "param mixed_request ''artistID'' = Some ''x1''"
    by (simp_all add: mixed_request_def param_def request_with_def)
  have b: "\<not> is_blank ''3abc''" "\<not> is_blank ''abc''" by (simp_all add: is_blank_def char_simps)
  have l: "\<not> is_numeric_literal ''3abc''"
    by (simp add: is_numeric_literal_def parse_simps number_simps)
  have x: "\<not> has_leading_digit ''x1''"
    by (simp add: has_leading_digit_def parse_simps)
  have n: "no_digit ''abc''" by (simp add: no_digit_def is_digit_def code_unit_def)
  have i: "\<not> is_infinity_literal ''abc''"
    by (simp add: is_infinity_literal_def strip_sign_def char_simps)
  from C3_nan_parameter_not_found
    [OF r j, of mixed_request "''3abc''" "''x1''" "''1890''" "''x1''" "''x1''" "''abc''"]
    r j w p b l x n i
  show ?thesis by simp
qed

text \<open>
  C4.  The claim: the selector by year range returns exactly the paintings whose
  \<^verbatim>\<open>yearOfWork\<close> is present and lies between the bounds, both ends included.  The code
  misses a case: a painting whose \<^verbatim>\<open>yearOfWork\<close> is the number 0 has the field, and
  \<open>0 \<le> parseInt(0) \<le> 0\<close>, yet the guard \<^verbatim>\<open>painting.yearOfWork &&\<close> takes 0 for absent,
  so the requests for the years 0 to 0 and 0 to 5 return no painting (404), against the
  route's own comment (paintings whose \<^verbatim>\<open>yearOfWork\<close> is between the provided values,
  inclusive).  The bounds themselves are inclusive: with \<^verbatim>\<open>min = max = 1990\<close> the painting
  of the year \<^verbatim>\<open>"1990"\<close> is returned, and only that one.
\<close>

theorem C4_year_zero_dropped:
  "in_year_range_as_stated (\<lambda>n. ''0'') (parseInt_string ''0'') (parseInt_string ''0'') year_zero
   \<and> painting_year_filter (\<lambda>n. ''0'') (Arr [year_zero])
        (request_with ''/api/painting/year/0/0'' [(''min'', ''0''), (''max'', ''0'')])
      = Inr (Arr [])
   \<and> status (get_painting_year (loaded (Arr [year_zero]))
        (request_with ''/api/painting/year/0/0'' [(''min'', ''0''), (''max'', ''0'')])) = 404
   \<and> in_year_range_as_stated (\<lambda>n. ''0'') (parseInt_string ''0'') (parseInt_string ''5'') year_zero
   \<and> painting_year_filter (\<lambda>n. ''0'') (Arr [year_zero])
        (request_with ''/api/painting/year/0/5'' [(''min'', ''0''), (''max'', ''5'')])
      = Inr (Arr [])
   \<and> painting_year_filter (\<lambda>n. ''0'') (Arr three_years)
        (request_with ''/api/painting/year/1990/1990'' [(''min'', ''1990''), (''max'', ''1990'')])
      = Inr (Arr [Obj [(''paintingID'', Num (Fin 2)), (''yearOfWork'', Str ''1990'')]])"
  by (simp add: in_year_range_as_stated_def year_zero_def three_years_def field_def route_simps
      filter_simps parse_simps)

text \<open>
  C5.  On paintings whose dominant colours, when present, are a sequence of records with a
  string or no \<^verbatim>\<open>name\<close>, the selector by colour name returns exactly the paintings of
  which some dominant colour has a name that, lower-cased and trimmed, contains the
  lower-cased query.  The entry named \<^verbatim>\<open>"  Dark Red  "\<close> matches the query \<^verbatim>\<open>dark red\<close>;
  an entry without \<^verbatim>\<open>name\<close> counts as the empty string and matches no query that is
  not empty.
\<close>

theorem C5_color_name:
  assumes "param req ''name'' = Some q" and "list_all colors_wellformed ps"
  shows "painting_color_filter (Arr ps) req = Inr (Arr (filter (has_color q) ps))
       \<and> color_entry_match (toLowerCase ''dark red'') (Obj [(''name'', Str ''  Dark Red  '')]) = Inr True
       \<and> (q \<noteq> [] \<longrightarrow> (\<forall>c. is_record c \<and> field c ''name'' = Undefined \<longrightarrow>
             color_entry_match (toLowerCase q) c = Inr False))"
proof (intro conjI impI allI)
  show "painting_color_filter (Arr ps) req = Inr (Arr (filter (has_color q) ps))"
    by (rule painting_color_filter_wellformed [OF assms])
  show "color_entry_match (toLowerCase ''dark red'') (Obj [(''name'', Str ''  Dark Red  '')]) = Inr True"
    by (rule dark_red)
  fix c
  assume q: "q \<noteq> []" and c: "is_record c \<and> field c ''name'' = Undefined"
  then show "color_entry_match (toLowerCase q) c = Inr False"
    by (simp add: color_entry_match_def get_prop_record toLowerCase_Nil_iff)
qed

theorem C5_color_name_witness:
  "param (request_with ''/api/painting/color/dark%20red'' [(''name'', ''dark red'')]) ''name''
     = Some ''dark red''
   \<and> list_all colors_wellformed [starry_night, dark_red_painting, unnamed_color_painting]
   \<and> ''dark red'' \<noteq> []
   \<and> is_record (Obj [(''web'', Str ''#8B0000'')])
   \<and> field (Obj [(''web'', Str ''#8B0000'')]) ''name'' = Undefined
   \<and> color_entry_match (toLowerCase ''dark red'') (Obj [(''web'', Str ''#8B0000'')]) = Inr False
   \<and> painting_color_filter (Arr [starry_night, dark_red_painting, unnamed_color_painting])
        (request_with ''/api/painting/color/dark%20red'' [(''name'', ''dark red'')])
      = Inr (Arr (filter (has_color ''dark red'')
               [starry_night, dark_red_painting, unnamed_color_painting]))
   \<and> painting_color_filter (Arr [starry_night, dark_red_painting, unnamed_color_painting])
        (request_with ''/api/painting/color/dark%20red'' [(''name'', ''dark red'')])
      = Inr (Arr [dark_red_painting])"
proof -
  let ?req = "request_with ''/api/painting/color/dark%20red'' [(''name'', ''dark red'')]"
  let ?ps = "[starry_night, dark_red_painting, unnamed_color_painting]"
  have p: "param ?req ''name'' = Some ''dark red''" by (simp add: param_def request_with_def)
  have w: "list_all colors_wellformed ?ps"
    by (simp add: colors_wellformed_def is_record_def dominantColors_def field_def
        color_entry_wellformed_def absent_or_string_def is_string_def
        starry_night_def dark_red_painting_def unnamed_color_painting_def)
  have n: "''dark red'' \<noteq> []" by simp
  have r: "is_record (Obj [(''web'', Str ''#8B0000'')])" by (simp add: is_record_def)
  have f: "field (Obj [(''web'', Str ''#8B0000'')]) ''name'' = Undefined" by (simp add: field_def)
  have v: "painting_color_filter (Arr ?ps) ?req = Inr (Arr [dark_red_painting])"
    by (simp add: painting_color_filter_def color_match_def color_entry_match_def filter_simps
        char_simps starry_night_def dark_red_painting_def unnamed_color_painting_def)
  from C5_color_name [OF p w] p w n r f v show ?thesis by simp
qed



text \<open>
  C7.  The selector by painting id converts the parameter with \<^verbatim>\<open>Number\<close>, compares
  \<^verbatim>\<open>paintingID\<close> with \<^verbatim>\<open>===\<close> and returns the first record of the dataset that
  matches, a single record; the response is then 200 with that record.  When no record
  matches it returns \<^verbatim>\<open>undefined\<close> and the response is 404.
\<close>

theorem C7_painting_by_id:
  assumes "param req ''paintingID'' = Some s"
    and "readFile E (path_join (dirname E) (dirname E) filePaintings) = Inr d"
    and "JSON_parse E d = Inr (Arr ps)"
    and "list_all is_record ps"
  shows "painting_id_filter (Number (Some s)) (Arr ps) req =
           Inr (case find (has_painting_id (Number (Some s))) ps of
                  None \<Rightarrow> Undefined | Some p \<Rightarrow> p)
       \<and> (\<forall>i < length ps.
             has_painting_id (Number (Some s)) (ps ! i) \<and>
             (\<forall>j < i. \<not> has_painting_id (Number (Some s)) (ps ! j)) \<longrightarrow>
             get_painting E req =
               \<lparr>status = 200, headers = [(''Content-Type'', ''application/json'')],
                body = Send (Stringify (ps ! i) 2)\<rparr>)
       \<and> (list_all (\<lambda>p. \<not> has_painting_id (Number (Some s)) p) ps \<longrightarrow>
             painting_id_filter (Number (Some s)) (Arr ps) req = Inr Undefined \<and>
             status (get_painting E req) = 404)"
proof (intro conjI allI impI)
  let ?n = "Number (Some s)"
  show flt: "painting_id_filter ?n (Arr ps) req =
      Inr (case find (has_painting_id ?n) ps of None \<Rightarrow> Undefined | Some p \<Rightarrow> p)"
    by (rule painting_id_filter_records [OF assms(4)])
  have resp: "get_painting E req =
     (case painting_id_filter ?n (Arr ps) req of
        Inl e \<Rightarrow> internal_server_error e
      | Inr v \<Rightarrow>
          if v \<noteq> Undefined \<and> (if isArray v then 0 < array_length v else True)
          then \<lparr>status = 200, headers = [(''Content-Type'', ''application/json'')],
                body = Send (formatJsonResponse v)\<rparr>
          else \<lparr>status = 404, headers = [],
                body = Json (Obj [(''error'',
                  Str (''No data found for the specified criteria in '' @ url req))])\<rparr>)"
    by (simp add: get_painting_def assms(1) handleApiRequest_loaded [OF assms(2,3)])
  {
    fix i
    assume i: "i < length ps"
      and m: "has_painting_id ?n (ps ! i) \<and> (\<forall>j<i. \<not> has_painting_id ?n (ps ! j))"
    then have "find (has_painting_id ?n) ps = Some (ps ! i)"
      by (intro find_first) auto
    moreover from i assms(4) have "is_record (ps ! i)" by (simp add: list_all_length)
    then have "ps ! i \<noteq> Undefined" "\<not> isArray (ps ! i)"
      by (cases "ps ! i"; simp add: is_record_def isArray_def)+
    ultimately show "get_painting E req =
        \<lparr>status = 200, headers = [(''Content-Type'', ''application/json'')],
         body = Send (Stringify (ps ! i) 2)\<rparr>"
      by (simp add: resp flt formatJsonResponse_def)
  }
  {
    assume "list_all (\<lambda>p. \<not> has_painting_id ?n p) ps"
    then have none: "find (has_painting_id ?n) ps = None" by (rule find_none)
    then show "painting_id_filter ?n (Arr ps) req = Inr Undefined" by (simp add: flt)
    from none show "status (get_painting E req) = 404" by (simp add: resp flt)
  }
qed

theorem C7_painting_by_id_witness:
  "param (request_with ''/api/painting/5'' [(''paintingID'', ''5'')]) ''paintingID'' = Some ''5''
   \<and> list_all is_record two_fives
   \<and> (1::nat) < length two_fives
   \<and> has_painting_id (Number (Some ''5'')) (two_fives ! 1)
   \<and> \<not> has_painting_id (Number (Some ''5'')) (two_fives ! 0)
   \<and> get_painting (loaded (Arr two_fives)) (request_with ''/api/painting/5'' [(''paintingID'', ''5'')]) =
       \<lparr>status = 200, headers = [(''Content-Type'', ''application/json'')],
        body = Send (Stringify (Obj [(''paintingID'', Num (Fin 5)), (''title'', Str ''First'')]) 2)\<rparr>"
proof -
  let ?req = "request_with ''/api/painting/5'' [(''paintingID'', ''5'')]"
  have p: "param ?req ''paintingID'' = Some ''5''" by (simp add: param_def request_with_def)
  have r: "readFile (loaded (Arr two_fives))
      (path_join (dirname (loaded (Arr two_fives))) (dirname (loaded (Arr two_fives))) filePaintings)
      = Inr ''(file)''" by (simp add: loaded_simps)
  have j: "JSON_parse (loaded (Arr two_fives)) ''(file)'' = Inr (Arr two_fives)" by (simp add: loaded_simps)
  have w: "list_all is_record two_fives" by (simp add: two_fives_def is_record_def)
  have l: "(1::nat) < length two_fives" by (simp add: two_fives_def)
  have m: "has_painting_id (Number (Some ''5'')) (two_fives ! 1)"
    by (simp add: Number_5 two_fives_def has_painting_id_def field_def strict_eq_num_def)
  have f0: "\<not> has_painting_id (Number (Some ''5'')) (two_fives ! 0)"
    by (simp add: Number_5 two_fives_def has_painting_id_def field_def strict_eq_num_def)
  then have f: "\<forall>j < 1. \<not> has_painting_id (Number (Some ''5'')) (two_fives ! j)"
    by simp
  from C7_painting_by_id [OF p r j w] l m f
  have "get_painting (loaded (Arr two_fives)) ?req =
       \<lparr>status = 200, headers = [(''Content-Type'', ''application/json'')],
        body = Send (Stringify (two_fives ! 1) 2)\<rparr>" by blast
  then show ?thesis using p w l m f0 by (simp add: two_fives_def)
qed

text \<open>
  C8.  On paintings whose title, when present, is a string, and for a query that is not
  empty (a path parameter never is), the selector by title returns exactly the paintings
  that have a title of which some part equals the query up to letter case.  The query
  \<^verbatim>\<open>sun\<close> selects every painting titled \<^verbatim>\<open>Sunflowers\<close>.
\<close>

theorem C8_title_substring:
  assumes "param req ''text'' = Some q" and "q \<noteq> []" and "list_all title_wellformed ps"
  shows "painting_title_filter (Arr ps) req = Inr (Arr (filter (title_contains q) ps))
       \<and> (q = ''sun'' \<longrightarrow>
            (\<forall>p \<in> set ps. field p ''title'' = Str ''Sunflowers'' \<longrightarrow>
               (\<exists>rs. painting_title_filter (Arr ps) req = Inr (Arr rs) \<and> p \<in> set rs)))"
proof (intro conjI impI ballI)
  show flt: "painting_title_filter (Arr ps) req = Inr (Arr (filter (title_contains q) ps))"
    by (rule painting_title_filter_wellformed [OF assms])
  fix p
  assume q: "q = ''sun''" and p: "p \<in> set ps" and t: "field p ''title'' = Str ''Sunflowers''"
  have "contains_ignoring_case ''Sunflowers'' ''sun''"
    using sun_in_Sunflowers by (simp only: includes_lower_iff)
  with t q have "title_contains q p" by (simp add: title_contains_def)
  with p flt show "\<exists>rs. painting_title_filter (Arr ps) req = Inr (Arr rs) \<and> p \<in> set rs"
    by simp
qed

theorem C8_title_substring_witness:
  "param (request_with ''/api/painting/title/sun'' [(''text'', ''sun'')]) ''text'' = Some ''sun''
   \<and> ''sun'' \<noteq> []
   \<and> list_all title_wellformed [starry_night, sunflowers]
   \<and> sunflowers \<in> set [starry_night, sunflowers]
   \<and> field sunflowers ''title'' = Str ''Sunflowers''
   \<and> painting_title_filter (Arr [starry_night, sunflowers])
        (request_with ''/api/painting/title/sun'' [(''text'', ''sun'')])
      = Inr (Arr (filter (title_contains ''sun'') [starry_night, sunflowers]))
   \<and> painting_title_filter (Arr [starry_night, sunflowers])
        (request_with ''/api/painting/title/sun'' [(''text'', ''sun'')])
      = Inr (Arr [sunflowers])"
proof -
  let ?req = "request_with ''/api/painting/title/sun'' [(''text'', ''sun'')]"
  have p: "param ?req ''text'' = Some ''sun''" by (simp add: param_def request_with_def)
  have w: "list_all title_wellformed [starry_night, sunflowers]"
    by (simp add: title_wellformed_def is_record_def absent_or_string_def is_string_def
        field_def starry_night_def sunflowers_def)
  have m: "sunflowers \<in> set [starry_night, sunflowers]" by simp
  have f: "field sunflowers ''title'' = Str ''Sunflowers''" by (simp add: field_def sunflowers_def)
  have v: "painting_title_filter (Arr [starry_night, sunflowers]) ?req = Inr (Arr [sunflowers])"
    by (simp add: painting_title_filter_def title_match_def filter_simps char_simps
        starry_night_def sunflowers_def)
  have n: "''sun'' \<noteq> []" by simp
  from C8_title_substring [OF p n w] p n w m f v show ?thesis by simp
qed

text \<open>
  C9.  The selectors by country read \<^verbatim>\<open>Nationality\<close> (\<^verbatim>\<open>GalleryCountry\<close>) of every record
  and call \<^verbatim>\<open>toLowerCase\<close> on it without a check: one record of the dataset where the
  field is missing, \<^verbatim>\<open>undefined\<close> or \<^verbatim>\<open>null\<close> makes the whole request answer 500,
  whatever the other records hold (each route reads its own file).  The selectors on
  paintings check the field first: on a record where \<^verbatim>\<open>gallery\<close>, \<^verbatim>\<open>artist\<close>,
  \<^verbatim>\<open>yearOfWork\<close>, \<^verbatim>\<open>title\<close> or the dominant colours are missing or \<^verbatim>\<open>null\<close> they
  return false and do not throw.
\<close>

theorem C9_country_field_missing:
  "(param req ''country'' = Some c \<and>
    readFile E (path_join (dirname E) (dirname E) fileArtist) = Inr da \<and>
    JSON_parse E da = Inr (Arr rs) \<and> r \<in> set rs \<and>
    (field r ''Nationality'' = Undefined \<or> field r ''Nationality'' = Null) \<longrightarrow>
      get_artists_country E req =
        \<lparr>status = 500, headers = [], body = Send (Literal ''Internal Server Error'')\<rparr>)
   \<and> (param req ''country'' = Some c \<and>
    readFile E (path_join (dirname E) (dirname E) fileGallery) = Inr dg \<and>
    JSON_parse E dg = Inr (Arr gs) \<and> g \<in> set gs \<and>
    (field g ''GalleryCountry'' = Undefined \<or> field g ''GalleryCountry'' = Null) \<longrightarrow>
      get_galleries_country E req =
        \<lparr>status = 500, headers = [], body = Send (Literal ''Internal Server Error'')\<rparr>)
   \<and> (is_record p \<and> (field p ''gallery'' = Undefined \<or> field p ''gallery'' = Null) \<longrightarrow>
        nested_id_match ''gallery'' ''galleryID'' n p = Inr False)
   \<and> (is_record p \<and> (field p ''artist'' = Undefined \<or> field p ''artist'' = Null) \<longrightarrow>
        nested_id_match ''artist'' ''artistID'' n p = Inr False)
   \<and> (is_record p \<and> (field p ''yearOfWork'' = Undefined \<or> field p ''yearOfWork'' = Null) \<longrightarrow>
        year_match nts lo hi p = Inr False)
   \<and> (is_record p \<and> (field p ''title'' = Undefined \<or> field p ''title'' = Null) \<longrightarrow>
        title_match q p = Inr False)
   \<and> (is_record p \<and> (dominantColors p = Undefined \<or> dominantColors p = Null) \<longrightarrow>
        color_match cq p = Inr False)"
proof (intro conjI impI)
  assume "param req ''country'' = Some c \<and>
    readFile E (path_join (dirname E) (dirname E) fileArtist) = Inr da \<and>
    JSON_parse E da = Inr (Arr rs) \<and> r \<in> set rs \<and>
    (field r ''Nationality'' = Undefined \<or> field r ''Nationality'' = Null)"
  then show "get_artists_country E req =
        \<lparr>status = 500, headers = [], body = Send (Literal ''Internal Server Error'')\<rparr>"
    unfolding get_artists_country_def artists_country_filter_def
    by (intro country_route_error [where c = c and d = da and rs = rs and r = r]) simp_all
next
  assume "param req ''country'' = Some c \<and>
    readFile E (path_join (dirname E) (dirname E) fileGallery) = Inr dg \<and>
    JSON_parse E dg = Inr (Arr gs) \<and> g \<in> set gs \<and>
    (field g ''GalleryCountry'' = Undefined \<or> field g ''GalleryCountry'' = Null)"
  then show "get_galleries_country E req =
        \<lparr>status = 500, headers = [], body = Send (Literal ''Internal Server Error'')\<rparr>"
    unfolding get_galleries_country_def galleries_country_filter_def
    by (intro country_route_error [where c = c and d = dg and rs = gs and r = g]) simp_all
next
  assume "is_record p \<and> (field p ''gallery'' = Undefined \<or> field p ''gallery'' = Null)"
  then show "nested_id_match ''gallery'' ''galleryID'' n p = Inr False"
    by (intro nested_id_match_missing) simp_all
next
  assume "is_record p \<and> (field p ''artist'' = Undefined \<or> field p ''artist'' = Null)"
  then show "nested_id_match ''artist'' ''artistID'' n p = Inr False"
    by (intro nested_id_match_missing) simp_all
next
  assume "is_record p \<and> (field p ''yearOfWork'' = Undefined \<or> field p ''yearOfWork'' = Null)"
  then show "year_match nts lo hi p = Inr False"
    by (intro year_match_missing) simp_all
next
  assume "is_record p \<and> (field p ''title'' = Undefined \<or> field p ''title'' = Null)"
  then show "title_match q p = Inr False"
    by (intro title_match_missing) simp_all
next
  assume "is_record p \<and> (dominantColors p = Undefined \<or> dominantColors p = Null)"
  then show "color_match cq p = Inr False"
    by (intro color_match_missing) simp_all
qed

theorem C9_country_field_missing_witness:
  "param france_request ''country'' = Some ''France''
   \<and> readFile (two_files (Arr artists_with_gap) (Arr galleries_with_gap))
        (path_join ''/srv'' ''/srv'' fileArtist) = Inr ''/srv//srv/artists.json''
   \<and> JSON_parse (two_files (Arr artists_with_gap) (Arr galleries_with_gap))
        ''/srv//srv/artists.json'' = Inr (Arr artists_with_gap)
   \<and> readFile (two_files (Arr artists_with_gap) (Arr galleries_with_gap))
        (path_join ''/srv'' ''/srv'' fileGallery) = Inr ''/srv//srv/galleries.json''
   \<and> JSON_parse (two_files (Arr artists_with_gap) (Arr galleries_with_gap))
        ''/srv//srv/galleries.json'' = Inr (Arr galleries_with_gap)
   \<and> artists_with_gap ! 1 \<in> set artists_with_gap
   \<and> field (artists_with_gap ! 1) ''Nationality'' = Undefined
   \<and> field (artists_with_gap ! 0) ''Nationality'' = Str ''France''
   \<and> galleries_with_gap ! 1 \<in> set galleries_with_gap
   \<and> field (galleries_with_gap ! 1) ''GalleryCountry'' = Null
   \<and> field (galleries_with_gap ! 2) ''GalleryCountry'' = Str ''France''
   \<and> is_record bare_painting
   \<and> field bare_painting ''gallery'' = Undefined
   \<and> field bare_painting ''artist'' = Undefined
   \<and> field bare_painting ''yearOfWork'' = Undefined
   \<and> field bare_painting ''title'' = Undefined
   \<and> dominantColors bare_painting = Undefined
   \<and> get_artists_country (two_files (Arr artists_with_gap) (Arr galleries_with_gap)) france_request =
        \<lparr>status = 500, headers = [], body = Send (Literal ''Internal Server Error'')\<rparr>
   \<and> get_galleries_country (two_files (Arr artists_with_gap) (Arr galleries_with_gap)) france_request =
        \<lparr>status = 500, headers = [], body = Send (Literal ''Internal Server Error'')\<rparr>
   \<and> nested_id_match ''gallery'' ''galleryID'' (Fin 3) bare_painting = Inr False
   \<and> nested_id_match ''artist'' ''artistID'' (Fin 3) bare_painting = Inr False
   \<and> year_match (\<lambda>n. ''0'') (Fin 1880) (Fin 1890) bare_painting = Inr False
   \<and> title_match ''sun'' bare_painting = Inr False
   \<and> color_match ''navy'' bare_painting = Inr False
   \<and> painting_gallery_filter (Fin 3) (Arr [bare_painting, painting_three]) france_request
      = Inr (Arr [painting_three])"
proof -
  let ?E = "two_files (Arr artists_with_gap) (Arr galleries_with_gap)"
  have dn: "dirname ?E = ''/srv''" by (simp add: two_files_def)
  have p: "param france_request ''country'' = Some ''France''"
    by (simp add: france_request_def param_def request_with_def)
  have ra: "readFile ?E (path_join ''/srv'' ''/srv'' fileArtist) = Inr ''/srv//srv/artists.json''"
    by (simp add: two_files_def path_join_def fileArtist_def)
  have ja: "JSON_parse ?E ''/srv//srv/artists.json'' = Inr (Arr artists_with_gap)"
    by (simp add: two_files_def)
  have rg: "readFile ?E (path_join ''/srv'' ''/srv'' fileGallery) = Inr ''/srv//srv/galleries.json''"
    by (simp add: two_files_def path_join_def fileGallery_def)
  have jg: "JSON_parse ?E ''/srv//srv/galleries.json'' = Inr (Arr galleries_with_gap)"
    by (simp add: two_files_def)
  have ma: "artists_with_gap ! 1 \<in> set artists_with_gap" by (simp add: artists_with_gap_def)
  have fa: "field (artists_with_gap ! 1) ''Nationality'' = Undefined"
      "field (artists_with_gap ! 0) ''Nationality'' = Str ''France''"
    by (simp_all add: artists_with_gap_def field_def)
  have mg: "galleries_with_gap ! 1 \<in> set galleries_with_gap" by (simp add: galleries_with_gap_def)
  have fg: "field (galleries_with_gap ! 1) ''GalleryCountry'' = Null"
      "field (galleries_with_gap ! 2) ''GalleryCountry'' = Str ''France''"
    by (simp_all add: galleries_with_gap_def field_def)
  have b: "is_record bare_painting" "field bare_painting ''gallery'' = Undefined"
      "field bare_painting ''artist'' = Undefined" "field bare_painting ''yearOfWork'' = Undefined"
      "field bare_painting ''title'' = Undefined" "dominantColors bare_painting = Undefined"
    by (simp_all add: bare_painting_def is_record_def field_def dominantColors_def)
  have v: "painting_gallery_filter (Fin 3) (Arr [bare_painting, painting_three]) france_request
      = Inr (Arr [painting_three])"
    by (simp add: painting_gallery_filter_def nested_id_match_def strict_eq_num_def filter_simps
        bare_painting_def painting_three_def)
  from C9_country_field_missing
    [of france_request "''France''" ?E "''/srv//srv/artists.json''" artists_with_gap
        "artists_with_gap ! 1" "''/srv//srv/galleries.json''" galleries_with_gap
        "galleries_with_gap ! 1" bare_painting "Fin 3" "\<lambda>n. ''0''" "Fin 1880" "Fin 1890"
        "''sun''" "''navy''"]
    dn p ra ja rg jg ma fa mg fg b v
  show ?thesis by simp
qed

text \<open>
  C10.  \<^verbatim>\<open>parseInt\<close> reads the digits in front and ignores what follows: \<^verbatim>\<open>3abc\<close> is 3
  for the routes by gallery id, by artist id and by year range, which then answer 200
  with the painting whose ids and year are 3.  \<^verbatim>\<open>Number\<close> turns the same text into
  \<open>NaN\<close>: the route by painting id answers 404 on that dataset, and on every dataset of
  records.
\<close>

theorem C10_parse_inconsistency:
  "parseInt nts (js_of_param (Some ''3abc'')) = Inr (Fin 3)
   \<and> Number (Some ''3abc'') = NaN
   \<and> (ds \<noteq> [] \<and> list_all is_digit ds \<and> \<not> is_digit c \<longrightarrow>
        parseInt_string (ds @ c # rest) = parseInt_string ds)
   \<and> get_painting_gallery (loaded (Arr [painting_three]))
        (request_with ''/api/painting/gallery/3abc'' [(''galleryID'', ''3abc'')])
      = \<lparr>status = 200, headers = [(''Content-Type'', ''application/json'')],
         body = Send (Stringify (Arr [painting_three]) 2)\<rparr>
   \<and> get_painting_artist (loaded (Arr [painting_three]))
        (request_with ''/api/painting/artist/3abc'' [(''artistID'', ''3abc'')])
      = \<lparr>status = 200, headers = [(''Content-Type'', ''application/json'')],
         body = Send (Stringify (Arr [painting_three]) 2)\<rparr>
   \<and> get_painting_year (loaded (Arr [painting_three]))
        (request_with ''/api/painting/year/3abc/3abc'' [(''min'', ''3abc''), (''max'', ''3abc'')])
      = \<lparr>status = 200, headers = [(''Content-Type'', ''application/json'')],
         body = Send (Stringify (Arr [painting_three]) 2)\<rparr>
   \<and> status (get_painting (loaded (Arr [painting_three]))
        (request_with ''/api/painting/3abc'' [(''paintingID'', ''3abc'')])) = 404
   \<and> (param req ''paintingID'' = Some ''3abc'' \<and>
      readFile E (path_join (dirname E) (dirname E) filePaintings) = Inr d \<and>
      JSON_parse E d = Inr (Arr ps) \<and> list_all is_record ps \<longrightarrow>
        status (get_painting E req) = 404)"
proof -
  have a: "parseInt nts (js_of_param (Some ''3abc'')) = Inr (Fin 3)"
    by (simp add: parseInt_param parse_simps)
  have b: "Number (Some ''3abc'') = NaN"
    by (simp add: parse_simps number_simps)
  have c: "ds \<noteq> [] \<and> list_all is_digit ds \<and> \<not> is_digit c \<longrightarrow>
        parseInt_string (ds @ c # rest) = parseInt_string ds"
    using parseInt_string_digits_prefix by blast
  have g: "get_painting_gallery (loaded (Arr [painting_three]))
        (request_with ''/api/painting/gallery/3abc'' [(''galleryID'', ''3abc'')])
      = \<lparr>status = 200, headers = [(''Content-Type'', ''application/json'')],
         body = Send (Stringify (Arr [painting_three]) 2)\<rparr>"
    by (simp add: route_simps filter_simps parse_simps painting_three_def formatJsonResponse_def)
  have r: "get_painting_artist (loaded (Arr [painting_three]))
        (request_with ''/api/painting/artist/3abc'' [(''artistID'', ''3abc'')])
      = \<lparr>status = 200, headers = [(''Content-Type'', ''application/json'')],
         body = Send (Stringify (Arr [painting_three]) 2)\<rparr>"
    by (simp add: route_simps filter_simps parse_simps painting_three_def formatJsonResponse_def)
  have y: "get_painting_year (loaded (Arr [painting_three]))
        (request_with ''/api/painting/year/3abc/3abc'' [(''min'', ''3abc''), (''max'', ''3abc'')])
      = \<lparr>status = 200, headers = [(''Content-Type'', ''application/json'')],
         body = Send (Stringify (Arr [painting_three]) 2)\<rparr>"
    by (simp add: route_simps filter_simps parse_simps painting_three_def formatJsonResponse_def)
  have gen: "status (get_painting E req) = 404"
    if "param req ''paintingID'' = Some ''3abc''"
      "readFile E (path_join (dirname E) (dirname E) filePaintings) = Inr d"
      "JSON_parse E d = Inr (Arr ps)" "list_all is_record ps"
    for E req d ps
  proof -
    have "find (has_painting_id NaN) ps = None"
      by (simp add: find_None_iff has_painting_id_def strict_eq_num_NaN)
    then have f: "painting_id_filter NaN (Arr ps) req = Inr Undefined"
      by (simp add: painting_id_filter_records [OF that(4)])
    show ?thesis
      unfolding get_painting_def Let_def that(1) b
      by (rule status_404_empty [OF that(2,3)]) (simp add: f)
  qed
  have i: "status (get_painting (loaded (Arr [painting_three]))
        (request_with ''/api/painting/3abc'' [(''paintingID'', ''3abc'')])) = 404"
    by (rule gen [where d = "''(file)''" and ps = "[painting_three]"])
       (simp_all add: param_def request_with_def loaded_simps is_record_def painting_three_def)
  from a b c g r y i gen show ?thesis by blast
qed

theorem C10_parse_inconsistency_witness:
  "''3'' \<noteq> [] \<and> list_all is_digit ''3'' \<and> \<not> is_digit CHR ''a''
   \<and> parseInt_string (''3'' @ CHR ''a'' # ''bc'') = parseInt_string ''3''
   \<and> parseInt_string ''3'' = Fin 3
   \<and> param request_3abc ''paintingID'' = Some ''3abc''
   \<and> readFile (loaded (Arr [painting_three]))
        (path_join (dirname (loaded (Arr [painting_three]))) (dirname (loaded (Arr [painting_three])))
           filePaintings) = Inr ''(file)''
   \<and> JSON_parse (loaded (Arr [painting_three])) ''(file)'' = Inr (Arr [painting_three])
   \<and> list_all is_record [painting_three]
   \<and> status (get_painting (loaded (Arr [painting_three])) request_3abc) = 404"
proof -
  let ?E = "loaded (Arr [painting_three])"
  have d: "''3'' \<noteq> [] \<and> list_all is_digit ''3'' \<and> \<not> is_digit CHR ''a''"
    by (simp add: is_digit_def code_unit_def)
  have v: "parseInt_string ''3'' = Fin 3" by (simp add: parse_simps)
  have p: "param request_3abc ''paintingID'' = Some ''3abc''"
    by (simp add: request_3abc_def param_def request_with_def)
  have r: "readFile ?E (path_join (dirname ?E) (dirname ?E) filePaintings) = Inr ''(file)''"
    by (simp add: loaded_simps)
  have j: "JSON_parse ?E ''(file)'' = Inr (Arr [painting_three])" by (simp add: loaded_simps)
  have w: "list_all is_record [painting_three]" by (simp add: is_record_def painting_three_def)
  from C10_parse_inconsistency
    [of "\<lambda>n. ''0''" "''3''" "CHR ''a''" "''bc''" request_3abc ?E "''(file)''" "[painting_three]"]
    d v p r j w
  show ?thesis by blast
qed

end
